theory Spec2Isabelle
  imports Complex_Main "HOL-Library.List_Lexorder" "HOL-Library.Log_Nat"
begin

section \<open>Python strings\<close>

text \<open>
  A Python \<^verbatim>\<open>str\<close> is a sequence of Unicode code points, and \<^verbatim>\<open>len\<close> counts code
  points; it is modelled as a list of integers. \<open>lit\<close> turns an ASCII literal into
  that form.

  What Python decides from the Unicode character database is exact here for the code
  points below 128, for the whitespace class (Python's complete list), and for the
  punctuation and space characters the sources name (\<open>known_symbol\<close>: none of them is a
  letter, a digit or cased). For every other code point the answer is read from the
  tables \<open>unicode\<close>, about which nothing is assumed: a theorem below holds whatever the
  tables of the Python version at hand are.
\<close>

type_synonym pstr = "int list"

definition lit :: "string \<Rightarrow> pstr" where
  "lit s = map of_char s"

definition is_space :: "int \<Rightarrow> bool" where
  "is_space c = ((9 \<le> c \<and> c \<le> 13) \<or> (28 \<le> c \<and> c \<le> 32) \<or> c = 133 \<or> c = 160
     \<or> c = 5760 \<or> (8192 \<le> c \<and> c \<le> 8202) \<or> c = 8232 \<or> c = 8233 \<or> c = 8239
     \<or> c = 8287 \<or> c = 12288)"

text \<open>The tables: \<^verbatim>\<open>str.isalpha\<close>, the class \<^verbatim>\<open>\d\<close> (decimal digits),
  \<^verbatim>\<open>str.isdigit\<close>, the alphanumeric characters of \<^verbatim>\<open>\w\<close>, the cased characters, and the
  lower-case, upper-case and title-case forms of a character, each a string. The
  lower-case form depends on the string and the position, as it does for the final
  sigma.\<close>

record unicode_tables =
  uc_alpha :: "int \<Rightarrow> bool"
  uc_decimal :: "int \<Rightarrow> bool"
  uc_digit :: "int \<Rightarrow> bool"
  uc_alnum :: "int \<Rightarrow> bool"
  uc_cased :: "int \<Rightarrow> bool"
  uc_lower :: "pstr \<Rightarrow> nat \<Rightarrow> pstr"
  uc_upper :: "int \<Rightarrow> pstr"
  uc_title :: "int \<Rightarrow> pstr"

definition unicode :: unicode_tables where
  "unicode = undefined"

text \<open>The non-ASCII characters named in the sources, the non-ASCII whitespace, the dashes
  U+2010..U+2015 and the minus sign U+2212.\<close>

definition known_symbol :: "int \<Rightarrow> bool" where
  "known_symbol c = (c = 133 \<or> c = 160 \<or> c = 183 \<or> c = 5760 \<or> (8192 \<le> c \<and> c \<le> 8202)
     \<or> (8208 \<le> c \<and> c \<le> 8213) \<or> c = 8226 \<or> c = 8227 \<or> c = 8230 \<or> c = 8232 \<or> c = 8233
     \<or> c = 8239 \<or> c = 8287 \<or> c = 8722 \<or> c = 9642 \<or> c = 9670 \<or> c = 9679 \<or> c = 12288
     \<or> c = 61623 \<or> c = 65306 \<or> c = 65533)"

definition is_upper :: "int \<Rightarrow> bool" where
  "is_upper c = (65 \<le> c \<and> c \<le> 90)"

definition is_lower :: "int \<Rightarrow> bool" where
  "is_lower c = (97 \<le> c \<and> c \<le> 122)"

text \<open>\<^verbatim>\<open>ch.isalpha()\<close>.\<close>

definition is_alpha :: "int \<Rightarrow> bool" where
  "is_alpha c = (if c < 128 then is_upper c \<or> is_lower c
                 else if known_symbol c then False else uc_alpha unicode c)"

text \<open>The class \<^verbatim>\<open>\d\<close> of a pattern.\<close>

definition is_decimal :: "int \<Rightarrow> bool" where
  "is_decimal c = (if c < 128 then 48 \<le> c \<and> c \<le> 57
                   else if known_symbol c then False else uc_decimal unicode c)"

text \<open>\<^verbatim>\<open>ch.isdigit()\<close>.\<close>

definition is_digit :: "int \<Rightarrow> bool" where
  "is_digit c = (if c < 128 then 48 \<le> c \<and> c \<le> 57
                 else if known_symbol c then False else uc_digit unicode c)"

text \<open>The class \<^verbatim>\<open>\w\<close> of a pattern, which also decides \<^verbatim>\<open>\b\<close>.\<close>

definition is_word :: "int \<Rightarrow> bool" where
  "is_word c = (if c < 128 then is_upper c \<or> is_lower c \<or> (48 \<le> c \<and> c \<le> 57) \<or> c = 95
                else if known_symbol c then False else uc_alnum unicode c)"

definition is_cased :: "int \<Rightarrow> bool" where
  "is_cased c = (if c < 128 then is_upper c \<or> is_lower c
                 else if known_symbol c then False else uc_cased unicode c)"

text \<open>The lower-case form of the character \<open>c\<close> at position \<open>i\<close> of \<open>s\<close>, and the
  upper-case and title-case forms of a character.\<close>

definition lower_at :: "pstr \<Rightarrow> nat \<Rightarrow> int \<Rightarrow> pstr" where
  "lower_at s i c = (if c < 128 then [if is_upper c then c + 32 else c]
                     else if known_symbol c then [c] else uc_lower unicode s i)"

definition upper_of :: "int \<Rightarrow> pstr" where
  "upper_of c = (if c < 128 then [if is_lower c then c - 32 else c]
                 else if known_symbol c then [c] else uc_upper unicode c)"

definition title_of :: "int \<Rightarrow> pstr" where
  "title_of c = (if c < 128 then [if is_lower c then c - 32 else c]
                 else if known_symbol c then [c] else uc_title unicode c)"

text \<open>\<^verbatim>\<open>s.lower()\<close> and \<^verbatim>\<open>s.upper()\<close>.\<close>

fun lower_from :: "pstr \<Rightarrow> nat \<Rightarrow> pstr \<Rightarrow> pstr" where
  "lower_from s i [] = []"
| "lower_from s i (c # cs) = lower_at s i c @ lower_from s (Suc i) cs"

definition lower :: "pstr \<Rightarrow> pstr" where
  "lower s = lower_from s 0 s"

definition upper :: "pstr \<Rightarrow> pstr" where
  "upper s = concat (map upper_of s)"

text \<open>\<^verbatim>\<open>s.lstrip(chars)\<close>, \<^verbatim>\<open>s.rstrip(chars)\<close>, \<^verbatim>\<open>s.strip(chars)\<close> for a class of characters, and
  \<^verbatim>\<open>s.strip()\<close> for whitespace.\<close>

definition lstrip_by :: "(int \<Rightarrow> bool) \<Rightarrow> pstr \<Rightarrow> pstr" where
  "lstrip_by P s = dropWhile P s"

definition rstrip_by :: "(int \<Rightarrow> bool) \<Rightarrow> pstr \<Rightarrow> pstr" where
  "rstrip_by P s = rev (dropWhile P (rev s))"

definition strip_by :: "(int \<Rightarrow> bool) \<Rightarrow> pstr \<Rightarrow> pstr" where
  "strip_by P s = rstrip_by P (lstrip_by P s)"

definition strip :: "pstr \<Rightarrow> pstr" where
  "strip s = strip_by is_space s"

text \<open>\<^verbatim>\<open>a in b\<close> on strings, \<^verbatim>\<open>s.startswith(p)\<close>, \<^verbatim>\<open>s.endswith(p)\<close>.\<close>

fun startswith :: "pstr \<Rightarrow> pstr \<Rightarrow> bool" where
  "startswith s [] = True"
| "startswith [] (c # p) = False"
| "startswith (d # s) (c # p) = (d = c \<and> startswith s p)"

definition endswith :: "pstr \<Rightarrow> pstr \<Rightarrow> bool" where
  "endswith s p = startswith (rev s) (rev p)"

fun contains :: "pstr \<Rightarrow> pstr \<Rightarrow> bool" where
  "contains [] p = (p = [])"
| "contains (c # s) p = (startswith (c # s) p \<or> contains s p)"

text \<open>\<^verbatim>\<open>sep.join(parts)\<close> for strings.\<close>

fun join :: "pstr \<Rightarrow> pstr list \<Rightarrow> pstr" where
  "join sep [] = []"
| "join sep [x] = x"
| "join sep (x # y # ys) = x @ sep @ join sep (y # ys)"

text \<open>Truthiness of an optional string: \<^verbatim>\<open>None\<close> and \<^verbatim>\<open>""\<close> are false.\<close>

fun truthy :: "pstr option \<Rightarrow> bool" where
  "truthy None = False"
| "truthy (Some s) = (s \<noteq> [])"

text \<open>\<^verbatim>\<open>a or b\<close> on optional strings: \<open>a\<close> when it is truthy, else \<open>b\<close> (whatever it is).\<close>

definition por :: "pstr option \<Rightarrow> pstr option \<Rightarrow> pstr option" where
  "por a b = (if truthy a then a else b)"

section \<open>Regular expressions\<close>

text \<open>
  The patterns of the sources are written as terms of \<open>re\<close>. \<open>rmatch r s\<close> lists, in the
  order a backtracking matcher tries them, the states reachable from \<open>s\<close> by matching
  \<open>r\<close>; a state is the character before the position (\<open>None\<close> at the start of the
  string), the rest of the input and the groups captured so far. The first state is the
  match Python's \<^verbatim>\<open>re\<close> reports. A repetition does not iterate over an empty match.
\<close>

datatype re =
    Chr "int \<Rightarrow> bool"
  | Eps
  | Seq re re
  | Alt re re
  | Star re
  | StarL re
  | Grp nat re
  | Bol
  | Eol
  | Eos
  | WordB
  | Behind "int \<Rightarrow> bool"

type_synonym mstate = "int option \<times> pstr \<times> (nat \<times> pstr) list"

definition at_word_boundary :: "int option \<Rightarrow> pstr \<Rightarrow> bool" where
  "at_word_boundary p cs =
     ((case p of None \<Rightarrow> False | Some c \<Rightarrow> is_word c) \<noteq>
      (case cs of [] \<Rightarrow> False | c # _ \<Rightarrow> is_word c))"

fun rmatch :: "re \<Rightarrow> mstate \<Rightarrow> mstate list" where
  "rmatch (Chr P) (p, cs, g) =
     (case cs of [] \<Rightarrow> [] | c # cs' \<Rightarrow> if P c then [(Some c, cs', g)] else [])"
| "rmatch Eps s = [s]"
| "rmatch (Seq a b) s = concat (map (rmatch b) (rmatch a s))"
| "rmatch (Alt a b) s = rmatch a s @ rmatch b s"
| "rmatch (Star r) s =
     concat (map (rmatch (Star r))
       (filter (\<lambda>s'. length (fst (snd s')) < length (fst (snd s))) (rmatch r s))) @ [s]"
| "rmatch (StarL r) s =
     s # concat (map (rmatch (StarL r))
       (filter (\<lambda>s'. length (fst (snd s')) < length (fst (snd s))) (rmatch r s)))"
| "rmatch (Grp n r) (p, cs, g) =
     map (\<lambda>(p', cs', g'). (p', cs', (n, take (length cs - length cs') cs) # g'))
       (rmatch r (p, cs, g))"
| "rmatch Bol (p, cs, g) = (if p = None then [(p, cs, g)] else [])"
| "rmatch Eol (p, cs, g) = (if cs = [] \<or> cs = [10] then [(p, cs, g)] else [])"
| "rmatch Eos (p, cs, g) = (if cs = [] then [(p, cs, g)] else [])"
| "rmatch WordB (p, cs, g) = (if at_word_boundary p cs then [(p, cs, g)] else [])"
| "rmatch (Behind P) (p, cs, g) =
     (case p of None \<Rightarrow> [] | Some c \<Rightarrow> if P c then [(p, cs, g)] else [])"

text \<open>Pattern constructors: a literal character, a character under \<^verbatim>\<open>re.I\<close>, a set of
  characters, literal words, \<open>r+\<close>, \<open>r?\<close>, \<open>r{n}\<close>, alternatives, and the classes
  \<^verbatim>\<open>\d\<close>, \<^verbatim>\<open>\s\<close> and \<^verbatim>\<open>.\<close>.

  Under \<^verbatim>\<open>re.I\<close> a text character \<open>x\<close> matches a pattern character \<open>c\<close> of the sources
  (an ASCII character or one of the named symbols) when it is \<open>c\<close>, when both are the same
  ASCII letter up to case, or when it is one of the four characters Python treats as case
  variants of ASCII letters: U+0130 and U+0131 for i, U+212A for k, U+017F for s.\<close>

definition ch :: "int \<Rightarrow> re" where
  "ch c = Chr (\<lambda>x. x = c)"

definition ascii_fold :: "int \<Rightarrow> int" where
  "ascii_fold c = (if is_upper c then c + 32 else c)"

definition ci_eq :: "int \<Rightarrow> int \<Rightarrow> bool" where
  "ci_eq c x = (x = c \<or> (x < 128 \<and> c < 128 \<and> ascii_fold x = ascii_fold c)
     \<or> (ascii_fold c = 105 \<and> (x = 304 \<or> x = 305))
     \<or> (ascii_fold c = 107 \<and> x = 8490)
     \<or> (ascii_fold c = 115 \<and> x = 383))"

definition chi :: "int \<Rightarrow> re" where
  "chi c = Chr (ci_eq c)"

definition one_of :: "pstr \<Rightarrow> re" where
  "one_of cs = Chr (\<lambda>x. x \<in> set cs)"

definition one_of_i :: "pstr \<Rightarrow> re" where
  "one_of_i cs = Chr (\<lambda>x. list_ex (\<lambda>c. ci_eq c x) cs)"

definition none_of :: "pstr \<Rightarrow> re" where
  "none_of cs = Chr (\<lambda>x. x \<notin> set cs)"

definition seqs :: "re list \<Rightarrow> re" where
  "seqs rs = foldr Seq rs Eps"

fun alts :: "re list \<Rightarrow> re" where
  "alts [] = Chr (\<lambda>x. False)"
| "alts [r] = r"
| "alts (r # rs) = Alt r (alts rs)"

definition word :: "string \<Rightarrow> re" where
  "word s = seqs (map ch (lit s))"

definition wordi :: "string \<Rightarrow> re" where
  "wordi s = seqs (map chi (lit s))"

definition Plus :: "re \<Rightarrow> re" where
  "Plus r = Seq r (Star r)"

definition Opt :: "re \<Rightarrow> re" where
  "Opt r = Alt r Eps"

definition rep :: "nat \<Rightarrow> re \<Rightarrow> re" where
  "rep n r = seqs (replicate n r)"

definition digit :: re where
  "digit = Chr is_decimal"

definition space :: re where
  "space = Chr is_space"

definition dot :: re where
  "dot = Chr (\<lambda>x. x \<noteq> 10)"

text \<open>Group 0 is the whole match. \<open>grp g n\<close> is \<^verbatim>\<open>m.group(n)\<close> for a group that took part
  in the match (every group read by the sources does).\<close>

definition grp :: "(nat \<times> pstr) list \<Rightarrow> nat \<Rightarrow> pstr" where
  "grp g n = (case map_of g n of None \<Rightarrow> [] | Some t \<Rightarrow> t)"

definition re_match :: "re \<Rightarrow> pstr \<Rightarrow> (nat \<times> pstr) list option" where
  "re_match r s =
     (case rmatch (Grp 0 r) (None, s, []) of [] \<Rightarrow> None | (p, cs, g) # _ \<Rightarrow> Some g)"

definition re_fullmatch :: "re \<Rightarrow> pstr \<Rightarrow> (nat \<times> pstr) list option" where
  "re_fullmatch r s = re_match (Seq r Eos) s"

fun search_from :: "re \<Rightarrow> int option \<Rightarrow> pstr \<Rightarrow> (nat \<times> pstr) list option" where
  "search_from r p [] =
     (case rmatch (Grp 0 r) (p, [], []) of [] \<Rightarrow> None | (p', cs', g) # _ \<Rightarrow> Some g)"
| "search_from r p (c # cs) =
     (case rmatch (Grp 0 r) (p, c # cs, []) of
        [] \<Rightarrow> search_from r (Some c) cs
      | (p', cs', g) # _ \<Rightarrow> Some g)"

definition re_search :: "re \<Rightarrow> pstr \<Rightarrow> (nat \<times> pstr) list option" where
  "re_search r s = search_from r None s"

text \<open>
  \<open>re_scan r p cs pre\<close> walks the input from left to right and cuts it at the successive
  non-overlapping matches of \<open>r\<close>: it returns the pairs (text before the match, matched
  text) and the text after the last match. The patterns used with \<^verbatim>\<open>split\<close>,
  \<^verbatim>\<open>sub\<close> and \<^verbatim>\<open>findall\<close> in the sources cannot match the empty string, and the scan
  skips an empty match.
\<close>

function re_scan :: "re \<Rightarrow> int option \<Rightarrow> pstr \<Rightarrow> pstr \<Rightarrow> (pstr \<times> pstr) list \<times> pstr" where
  "re_scan r p cs pre =
     (case (case rmatch r (p, cs, []) of
              [] \<Rightarrow> None
            | (p', cs', g) # _ \<Rightarrow> if length cs' < length cs then Some (p', cs') else None) of
        Some (p', cs') \<Rightarrow>
          (if length cs' < length cs
           then (let (ms, rst) = re_scan r p' cs' []
                 in ((rev pre, take (length cs - length cs') cs) # ms, rst))
           else ([], rev pre @ cs))
      | None \<Rightarrow>
          (case cs of
             [] \<Rightarrow> ([], rev pre)
           | c # cs'' \<Rightarrow> re_scan r (Some c) cs'' (c # pre)))"
  by pat_completeness auto
termination
  by (relation "measure (\<lambda>(r, p, cs, pre). length cs)") auto

definition re_split :: "re \<Rightarrow> pstr \<Rightarrow> pstr list" where
  "re_split r s = (let (ms, rst) = re_scan r None s [] in map fst ms @ [rst])"

definition re_sub :: "re \<Rightarrow> pstr \<Rightarrow> pstr \<Rightarrow> pstr" where
  "re_sub r repl s =
     (let (ms, rst) = re_scan r None s [] in concat (map (\<lambda>(pre, m). pre @ repl) ms) @ rst)"

definition re_sub1 :: "re \<Rightarrow> pstr \<Rightarrow> pstr \<Rightarrow> pstr" where
  "re_sub1 r repl s =
     (case re_scan r None s [] of
        ([], rst) \<Rightarrow> rst
      | ((pre, m) # ms, rst) \<Rightarrow> pre @ repl @ drop (length pre + length m) s)"

definition re_findall :: "re \<Rightarrow> pstr \<Rightarrow> pstr list" where
  "re_findall r s = map snd (fst (re_scan r None s []))"


section \<open>The resume segmenter (modules/profile/text\_preserve.py)\<close>

subsection \<open>Line helpers\<close>

text \<open>Code points of the glyphs the segmenter names: bullet U+2022 (8226), middle dot
  U+00B7 (183), em dash U+2014 (8212), en dash U+2013 (8211), full-width colon U+FF1A
  (65306).\<close>

definition norm_header :: "pstr \<Rightarrow> pstr" where
  "norm_header s =
     (let s1 = re_sub (Seq Bol (Plus (Chr (\<lambda>c. c \<in> {45, 8226, 183, 42, 8212, 8211} \<or> is_space c)))) [] s;
          s2 = lower (strip_by (\<lambda>c. c \<in> {58, 65306, 59}) (strip s1))
      in re_sub (Plus space) (lit '' '') s2)"

definition is_header_line :: "pstr \<Rightarrow> bool" where
  "is_header_line s = (norm_header s \<in> set (map lit
     [''education'', ''experience'', ''projects'', ''skills'', ''languages'', ''certifications'']))"

definition BULLET_LEAD :: re where
  "BULLET_LEAD = seqs [Bol, Star space,
     Plus (one_of [45, 8226, 183, 42, 8212, 8211, 8226, 8227, 9642, 9679, 9670, 183]),
     Plus space]"

definition is_bullet :: "pstr \<Rightarrow> bool" where
  "is_bullet s = (re_match BULLET_LEAD s \<noteq> None)"

definition clean_bullet :: "pstr \<Rightarrow> pstr" where
  "clean_bullet s = strip (re_sub1 BULLET_LEAD [] s)"

definition is_year_token :: "pstr \<Rightarrow> bool" where
  "is_year_token s = (re_fullmatch (rep 4 digit) s \<noteq> None)"

definition is_present_token :: "pstr \<Rightarrow> bool" where
  "is_present_token s = (lower (strip s) \<in> {lit ''present'', lit ''current''})"

definition MONTH_RE :: re where
  "MONTH_RE = Seq (alts (map wordi [''Jan'', ''Feb'', ''Mar'', ''Apr'', ''May'', ''Jun'', ''Jul'',
       ''Aug'', ''Sep'', ''Sept'', ''Oct'', ''Nov'', ''Dec'']))
     (Star (Chr (\<lambda>x. is_upper x \<or> is_lower x \<or> x = 304 \<or> x = 305 \<or> x = 383 \<or> x = 8490)))"

definition year_or_present :: re where
  "year_or_present = alts [rep 4 digit, wordi ''Present'', wordi ''Current'']"

text \<open>The three date grammars of \<^verbatim>\<open>date_range_from_line\<close>, all searched under
  \<^verbatim>\<open>re.I\<close>. In the first, the separator class is \<^verbatim>\<open>[-~\<dots>to\<dots>]{1,2}\<close>: hyphen, tilde, en
  and em dash, the letters t and o, and the characters U+81F3 (33267) and U+5230 (21040).\<close>

definition date_re1 :: re where
  "date_re1 = seqs [WordB, Grp 1 (rep 4 digit), WordB, Star space,
     one_of_i [45, 126, 8211, 8212, 116, 111, 33267, 21040],
     Opt (one_of_i [45, 126, 8211, 8212, 116, 111, 33267, 21040]),
     Star space, Grp 2 year_or_present, WordB]"

definition date_re2 :: re where
  "date_re2 = seqs [WordB, Grp 1 MONTH_RE, Plus space, Grp 2 (rep 4 digit), Star space,
     one_of [45, 126, 8211, 8212], Star space, Grp 3 MONTH_RE, Plus space,
     Grp 4 year_or_present, WordB]"

definition date_re3 :: re where
  "date_re3 = seqs [WordB, Grp 1 (rep 4 digit), WordB, Star dot, ch 40, Star space,
     Grp 2 MONTH_RE, Star space, one_of [45, 126, 8211, 8212], Star space, Grp 3 MONTH_RE,
     Star space, ch 41]"

text \<open>\<^verbatim>\<open>date_range_from_line\<close> returns \<^verbatim>\<open>None\<close> or a pair whose first component is always
  a string; the second may be \<^verbatim>\<open>None\<close>. The dash-like characters U+2010..U+2015, U+2212 are
  first replaced by a hyphen.\<close>

definition date_range_from_line :: "pstr \<Rightarrow> (pstr \<times> pstr option) option" where
  "date_range_from_line s =
     (let t0 = strip s in
      if t0 = [] then None
      else
        let t = re_sub (Chr (\<lambda>c. (8208 \<le> c \<and> c \<le> 8213) \<or> c = 8722)) (lit ''-'') t0 in
        case re_search date_re1 t of
          Some g \<Rightarrow> Some (grp g 1, Some (if \<not> is_present_token (grp g 2) then grp g 2 else lit ''Present''))
        | None \<Rightarrow>
        (case re_search date_re2 t of
          Some g \<Rightarrow> Some (grp g 1 @ lit '' '' @ grp g 2,
                        Some (if \<not> is_present_token (grp g 4) then grp g 3 @ lit '' '' @ grp g 4
                              else lit ''Present''))
        | None \<Rightarrow>
        (case re_search date_re3 t of
          Some g \<Rightarrow> Some (grp g 2 @ lit '' '' @ grp g 1, Some (grp g 3 @ lit '' '' @ grp g 1))
        | None \<Rightarrow>
        (if re_fullmatch (rep 4 digit) t \<noteq> None then Some (t, None) else None))))"

text \<open>\<^verbatim>\<open>dr and any(dr)\<close>: a pair was returned and one of its components is truthy.\<close>

fun date_found :: "(pstr \<times> pstr option) option \<Rightarrow> bool" where
  "date_found None = False"
| "date_found (Some (a, b)) = (a \<noteq> [] \<or> truthy b)"

definition looks_like_school :: "pstr \<Rightarrow> bool" where
  "looks_like_school s =
     ((\<exists>k \<in> set (map lit [''university'', ''college'', ''institute'', ''up education'',
                            ''high school'', ''school'']). contains (lower s) k)
      \<and> (\<exists>c \<in> set s. is_alpha c))"

definition looks_like_degree :: "pstr \<Rightarrow> bool" where
  "looks_like_degree s =
     (let low = lower s in
      startswith low (lit ''master of'') \<or> startswith low (lit ''bachelor of'')
      \<or> startswith low (lit ''foundation program'') \<or> contains low (lit ''graduation certificate''))"

text \<open>\<^verbatim>\<open>split_degree_major\<close>: the major is the text of the first parenthesis
  (\<^verbatim>\<open>\((.+?)\)\<close>), the degree the text before the first \<^verbatim>\<open>(\<close>; an empty result becomes
  \<^verbatim>\<open>None\<close>.\<close>

definition none_if_empty :: "pstr \<Rightarrow> pstr option" where
  "none_if_empty s = (if s = [] then None else Some s)"

definition split_degree_major :: "pstr \<Rightarrow> pstr option \<times> pstr option" where
  "split_degree_major s0 =
     (let s = strip s0;
          major = (case re_search (seqs [ch 40, Grp 1 (Seq dot (StarL dot)), ch 41]) s of
                     Some g \<Rightarrow> Some (strip (grp g 1)) | None \<Rightarrow> None);
          degree = rstrip_by (\<lambda>c. c \<in> {44, 59, 46}) (strip (takeWhile (\<lambda>c. c \<noteq> 40) s))
      in (none_if_empty degree, (case major of None \<Rightarrow> None | Some m \<Rightarrow> none_if_empty m)))"

text \<open>The role-first pattern \<^verbatim>\<open>^([^,]{2,}?),\s*(.{3,})$\<close> and the role keywords searched in
  its first group.\<close>

definition role_first_re :: re where
  "role_first_re = seqs [Bol,
     Grp 1 (seqs [none_of [44], none_of [44], StarL (none_of [44])]),
     ch 44, Star space, Grp 2 (seqs [dot, dot, dot, Star dot]), Eol]"

definition role_kw_re :: re where
  "role_kw_re = seqs [WordB,
     Grp 1 (alts (map wordi [''intern'', ''engineer'', ''developer'', ''volunteer'', ''assistant'',
       ''analyst'', ''manager'', ''research'', ''associate'', ''lead'', ''specialist'',
       ''consultant''])),
     WordB]"

text \<open>\<open>role_first line\<close> is \<open>Some (role, company)\<close> when the line matches the role-first
  pattern and its left side holds a role keyword.\<close>

definition role_first :: "pstr \<Rightarrow> (pstr \<times> pstr) option" where
  "role_first line =
     (case re_match role_first_re line of
        None \<Rightarrow> None
      | Some g \<Rightarrow> if re_search role_kw_re (grp g 1) \<noteq> None
                  then Some (strip (grp g 1), strip (grp g 2)) else None)"


text \<open>\<^verbatim>\<open>dedup_list\<close>, the deduplication of the string lists of the segmenter: an item is
  compared by its stripped, lower-cased form, and returned stripped.\<close>

fun dedup_list_from :: "pstr list \<Rightarrow> pstr list \<Rightarrow> pstr list" where
  "dedup_list_from seen [] = []"
| "dedup_list_from seen (item # items) =
     (let k = lower (strip item) in
      if k \<noteq> [] \<and> k \<notin> set seen then strip item # dedup_list_from (k # seen) items
      else dedup_list_from seen items)"

definition dedup_list :: "pstr list \<Rightarrow> pstr list" where
  "dedup_list items = dedup_list_from [] items"

subsection \<open>Records under construction\<close>

text \<open>The dictionaries the segmenter builds. An education dictionary has the keys school,
  degree, major, start, end; an experience dictionary company, role, start, end, bullets.
  The company is always a string; the role is \<^verbatim>\<open>None\<close> only in the synthetic Projects
  record.\<close>

record education =
  e_school :: "pstr option"
  e_degree :: "pstr option"
  e_major :: "pstr option"
  e_start :: "pstr option"
  e_end :: "pstr option"

record experience =
  x_company :: pstr
  x_role :: "pstr option"
  x_start :: "pstr option"
  x_end :: "pstr option"
  x_bullets :: "pstr list"

definition blank_edu :: education where
  "blank_edu = \<lparr>e_school = None, e_degree = None, e_major = None, e_start = None, e_end = None\<rparr>"

definition blank_exp :: experience where
  "blank_exp = \<lparr>x_company = [], x_role = Some [], x_start = None, x_end = None, x_bullets = []\<rparr>"

definition new_exp :: "pstr \<Rightarrow> pstr \<Rightarrow> experience" where
  "new_exp company role =
     \<lparr>x_company = company, x_role = Some role, x_start = None, x_end = None, x_bullets = []\<rparr>"

text \<open>\<^verbatim>\<open>ensure_current_edu\<close> (and \<^verbatim>\<open>ensure_pending_edu\<close>): the open record, a blank one when
  none is open.\<close>

fun ensure_edu :: "education option \<Rightarrow> education" where
  "ensure_edu None = blank_edu"
| "ensure_edu (Some c) = c"

text \<open>Setting start and end from a date pair \<open>(a, b)\<close>, each only when the field is still
  empty.\<close>

definition set_dates_edu :: "pstr \<times> pstr option \<Rightarrow> education \<Rightarrow> education" where
  "set_dates_edu dr c =
     (let c1 = (if fst dr \<noteq> [] \<and> \<not> truthy (e_start c) then c\<lparr>e_start := Some (fst dr)\<rparr> else c)
      in (if truthy (snd dr) \<and> \<not> truthy (e_end c1) then c1\<lparr>e_end := snd dr\<rparr> else c1))"

definition set_dates_exp :: "pstr \<times> pstr option \<Rightarrow> experience \<Rightarrow> experience" where
  "set_dates_exp dr c =
     (let c1 = (if fst dr \<noteq> [] \<and> \<not> truthy (x_start c) then c\<lparr>x_start := Some (fst dr)\<rparr> else c)
      in (if truthy (snd dr) \<and> \<not> truthy (x_end c1) then c1\<lparr>x_end := snd dr\<rparr> else c1))"

definition set_degree_major :: "pstr \<Rightarrow> education \<Rightarrow> education" where
  "set_degree_major line c =
     (let (deg, maj) = split_degree_major line;
          c1 = (if truthy deg \<and> \<not> truthy (e_degree c) then c\<lparr>e_degree := deg\<rparr> else c)
      in (if truthy maj \<and> \<not> truthy (e_major c1) then c1\<lparr>e_major := maj\<rparr> else c1))"

text \<open>Merging a line that opens a parenthesis without closing it with the next line, when
  that one ends in \<^verbatim>\<open>)\<close> (the \<^verbatim>\<open>while i < len(...)\<close> loops of the education and the
  projects buckets).\<close>

fun merge_brackets :: "pstr list \<Rightarrow> pstr list" where
  "merge_brackets [] = []"
| "merge_brackets [l] = [strip l]"
| "merge_brackets (l # n # ls) =
     (let curline = strip l; nxt = strip n in
      if (40 \<in> set curline \<and> 41 \<notin> set curline) \<and> endswith nxt (lit '')'')
      then (curline @ lit '' '' @ nxt) # merge_brackets ls
      else curline # merge_brackets (n # ls))"

subsection \<open>Experience\<close>

text \<open>The state of the experience loop: the committed records \<^verbatim>\<open>exp\<close> (here \<open>exps\<close>) and the open
  record \<^verbatim>\<open>curx\<close>.\<close>

type_synonym exp_state = "experience list \<times> experience option"

definition exp_populated :: "experience \<Rightarrow> bool" where
  "exp_populated c =
     (strip (x_company c) \<noteq> []
      \<or> strip (case x_role c of None \<Rightarrow> [] | Some r \<Rightarrow> r) \<noteq> []
      \<or> truthy (x_start c) \<or> truthy (x_end c) \<or> x_bullets c \<noteq> [])"

fun commit_current_exp :: "exp_state \<Rightarrow> exp_state" where
  "commit_current_exp (exps, None) = (exps, None)"
| "commit_current_exp (exps, Some c) = (if exp_populated c then (exps @ [c], None) else (exps, None))"

text \<open>Whether the open record has neither company nor role yet.\<close>

definition unnamed_exp :: "experience \<Rightarrow> bool" where
  "unnamed_exp c =
     (\<not> (strip (x_company c) \<noteq> [] \<or> strip (case x_role c of None \<Rightarrow> [] | Some r \<Rightarrow> r) \<noteq> []))"

text \<open>A header line: fills the open record in place when it is still unnamed, otherwise
  commits it and opens a new one.\<close>

fun open_exp :: "pstr \<Rightarrow> pstr \<Rightarrow> exp_state \<Rightarrow> exp_state" where
  "open_exp company role (exps, Some c) =
     (if unnamed_exp c then (exps, Some (c\<lparr>x_company := company, x_role := Some role\<rparr>))
      else (fst (commit_current_exp (exps, Some c)), Some (new_exp company role)))"
| "open_exp company role (exps, None) = (exps, Some (new_exp company role))"

definition company_role_re :: re where
  "company_role_re = seqs [Plus space, one_of [45, 8212, 8211, 124, 58], Plus space]"

definition exp_step :: "exp_state \<Rightarrow> pstr \<Rightarrow> exp_state" where
  "exp_step st line =
     (let exps = fst st; curx = snd st in
      if line = [] \<or> is_header_line line then st
      else if is_bullet line then
        (let c = (case curx of None \<Rightarrow> blank_exp | Some c \<Rightarrow> c);
             b = clean_bullet line
         in if is_year_token b
            then (exps, Some (if \<not> truthy (x_start c) then c\<lparr>x_start := Some b\<rparr> else c))
            else (exps, Some (c\<lparr>x_bullets := x_bullets c @ [b]\<rparr>)))
      else
        let dr = date_range_from_line line in
        if date_found dr then
          (case dr of
             Some d \<Rightarrow> (exps, Some (set_dates_exp d (case curx of None \<Rightarrow> blank_exp | Some c \<Rightarrow> c)))
           | None \<Rightarrow> st)
        else
          (case role_first line of
             Some (role, company) \<Rightarrow> open_exp company role st
           | None \<Rightarrow>
              (let parts = re_split company_role_re line in
               if length parts \<ge> 2 \<and> (\<exists>c \<in> set (parts ! 0). is_alpha c)
                  \<and> (\<exists>c \<in> set (parts ! 1). is_alpha c)
               then open_exp (strip (parts ! 0)) (strip (parts ! 1)) st
               else
                 (case curx of
                    Some c \<Rightarrow> (exps, Some (c\<lparr>x_bullets := x_bullets c @ [line]\<rparr>))
                  | None \<Rightarrow>
                     if \<exists>c \<in> set line. is_alpha c
                     then (exps, Some \<lparr>x_company = line, x_role = Some [], x_start = None,
                                       x_end = None, x_bullets = []\<rparr>)
                     else st))))"

definition parse_experience :: "pstr list \<Rightarrow> experience list" where
  "parse_experience lines = fst (commit_current_exp (foldl exp_step ([], None) lines))"


subsection \<open>Education\<close>

text \<open>The state of the education loop: the committed records \<^verbatim>\<open>edu\<close>, the open record
  \<^verbatim>\<open>cur\<close>, and the role-first lines re-homed to experience, \<^verbatim>\<open>moved_to_exp\<close>.\<close>

type_synonym edu_state = "education list \<times> education option \<times> experience list"

definition edu_nonempty :: "education \<Rightarrow> bool" where
  "edu_nonempty c = (truthy (e_school c) \<or> truthy (e_degree c) \<or> truthy (e_major c)
     \<or> truthy (e_start c) \<or> truthy (e_end c))"

fun commit_current_edu :: "education list \<times> education option \<Rightarrow> education list \<times> education option" where
  "commit_current_edu (edu, None) = (edu, None)"
| "commit_current_edu (edu, Some c) = (if edu_nonempty c then (edu @ [c], None) else (edu, None))"

text \<open>\<^verbatim>\<open>if cur and cur.get('school'): commit_current_edu()\<close>.\<close>

fun commit_if_school :: "education list \<times> education option \<Rightarrow> education list \<times> education option" where
  "commit_if_school (edu, None) = (edu, None)"
| "commit_if_school (edu, Some c) =
     (if truthy (e_school c) then commit_current_edu (edu, Some c) else (edu, Some c))"

definition edu_step :: "edu_state \<Rightarrow> pstr \<Rightarrow> edu_state" where
  "edu_step st line =
     (let edu = fst st; cur = fst (snd st); moved = snd (snd st) in
      if line = [] \<or> is_header_line line then st
      else if looks_like_degree line then
        (edu, Some (set_degree_major line (ensure_edu cur)), moved)
      else
        let dr = date_range_from_line line in
        if date_found dr then
          (case dr of
             Some d \<Rightarrow>
               (let (edu', cur') = commit_if_school (edu, cur)
                in (edu', Some (set_dates_edu d (ensure_edu cur')), moved))
           | None \<Rightarrow> st)
        else
          (case role_first line of
             Some (role, company) \<Rightarrow> (edu, cur, moved @ [new_exp company role])
           | None \<Rightarrow>
               if looks_like_school line then
                 (let (edu', cur') = commit_if_school (edu, cur)
                  in (edu', Some ((ensure_edu cur')\<lparr>e_school := Some line\<rparr>), moved))
               else st))"

text \<open>The education bucket gives the committed education records and the records moved
  to experience.\<close>

definition parse_education :: "pstr list \<Rightarrow> education list \<times> experience list" where
  "parse_education bl =
     (let st = foldl edu_step ([], None, []) (merge_brackets bl)
      in (fst (commit_current_edu (fst st, fst (snd st))), snd (snd st)))"

subsection \<open>Projects\<close>

text \<open>The state of the projects loop: the education records found among the project lines
  (\<^verbatim>\<open>edu_from_projects\<close>), the pending one (\<^verbatim>\<open>pending_edu\<close>), and the bullets kept
  (\<^verbatim>\<open>block\<close>).\<close>

type_synonym proj_state = "education list \<times> education option \<times> pstr list"

fun flush_pending_edu :: "education list \<times> education option \<Rightarrow> education list \<times> education option" where
  "flush_pending_edu (es, None) = (es, None)"
| "flush_pending_edu (es, Some c) = (if truthy (e_school c) then (es @ [c], None) else (es, None))"

definition gpa_re :: re where
  "gpa_re = seqs [WordB, wordi ''GPA'', WordB]"

text \<open>The line as the loop reads it: without its leading bullet glyph.\<close>

definition proj_text_line :: "pstr \<Rightarrow> pstr" where
  "proj_text_line line = (if is_bullet line then clean_bullet line else line)"

text \<open>The lines the loop does not keep as bullets: date ranges, degree lines, school lines
  and lines that mention GPA.\<close>

definition proj_diverted :: "pstr \<Rightarrow> bool" where
  "proj_diverted t = (date_found (date_range_from_line t) \<or> looks_like_degree t
     \<or> looks_like_school t \<or> re_search gpa_re t \<noteq> None)"

definition proj_step :: "proj_state \<Rightarrow> pstr \<Rightarrow> proj_state" where
  "proj_step st line =
     (let es = fst st; pending = fst (snd st); block = snd (snd st) in
      if line = [] then st
      else
        let text_line = proj_text_line line; dr = date_range_from_line text_line in
        if date_found dr then
          (case dr of
             Some d \<Rightarrow>
               (let (es', pending') =
                      (case pending of
                         Some c \<Rightarrow>
                           if truthy (e_school c) \<and> (truthy (e_start c) \<or> truthy (e_end c)
                                \<or> truthy (e_degree c) \<or> truthy (e_major c))
                           then flush_pending_edu (es, pending) else (es, pending)
                       | None \<Rightarrow> (es, pending))
                in (es', Some (set_dates_edu d (ensure_edu pending')), block))
           | None \<Rightarrow> st)
        else if looks_like_degree text_line then
          (es, Some (set_degree_major text_line (ensure_edu pending)), block)
        else if looks_like_school text_line then
          (let c = ensure_edu pending;
               (es', pending') = (if truthy (e_school c) then flush_pending_edu (es, Some c)
                                  else (es, Some c))
           in (es', Some ((ensure_edu pending')\<lparr>e_school := Some text_line\<rparr>), block))
        else if re_search gpa_re text_line \<noteq> None then
          (es, Some (ensure_edu pending), block)
        else (es, pending, block @ [text_line]))"

text \<open>The projects bucket gives the list \<^verbatim>\<open>projects\<close> (empty, or the one synthetic record)
  and the education records found among its lines.\<close>

definition projects_record :: "pstr list \<Rightarrow> experience" where
  "projects_record block = \<lparr>x_company = lit ''Projects'', x_role = None, x_start = None,
     x_end = None, x_bullets = block\<rparr>"

definition parse_projects :: "pstr list \<Rightarrow> experience list \<times> education list" where
  "parse_projects proj_lines =
     (let st = foldl proj_step ([], None, []) (merge_brackets proj_lines);
          block = snd (snd st)
      in ((if block \<noteq> [] then [projects_record block] else []),
          fst (flush_pending_edu (fst st, fst (snd st)))))"

text \<open>The school lines of the projects loop: the lines that reach the school branch, being
  neither a date range nor a degree line.\<close>

definition proj_school_line :: "pstr \<Rightarrow> bool" where
  "proj_school_line t = (\<not> date_found (date_range_from_line t) \<and> \<not> looks_like_degree t
     \<and> looks_like_school t)"

text \<open>The schools held by a state of the loop: those of the records found so far, then the
  school of the pending record when it has one.\<close>

definition pending_school :: "education option \<Rightarrow> pstr option list" where
  "pending_school p =
     (case p of Some c \<Rightarrow> if truthy (e_school c) then [e_school c] else [] | None \<Rightarrow> [])"

definition schools_of :: "proj_state \<Rightarrow> pstr option list" where
  "schools_of st = map e_school (fst st) @ pending_school (fst (snd st))"


subsection \<open>Lines and sections\<close>

text \<open>\<^verbatim>\<open>str.splitlines()\<close>: the line boundaries are LF, CR, CR LF, VT, FF, FS, GS, RS, NEL
  (133), LS (8232) and PS (8233); a final boundary opens no empty line.\<close>

definition is_linebreak :: "int \<Rightarrow> bool" where
  "is_linebreak c = ((10 \<le> c \<and> c \<le> 13) \<or> (28 \<le> c \<and> c \<le> 30) \<or> c = 133 \<or> c = 8232 \<or> c = 8233)"

fun splitlines_from :: "pstr \<Rightarrow> pstr \<Rightarrow> pstr list" where
  "splitlines_from acc [] = (if acc = [] then [] else [rev acc])"
| "splitlines_from acc (c # cs) =
     (if is_linebreak c then
        (case cs of
           [] \<Rightarrow> [rev acc]
         | d # ds \<Rightarrow> if c = 13 \<and> d = 10 then rev acc # splitlines_from [] ds
                     else rev acc # splitlines_from [] cs)
      else splitlines_from (c # acc) cs)"

definition splitlines :: "pstr \<Rightarrow> pstr list" where
  "splitlines s = splitlines_from [] s"

text \<open>\<^verbatim>\<open>s.replace(old, new)\<close> for a non-empty \<open>old\<close>, and \<^verbatim>\<open>s.count(c)\<close> for a character.\<close>

definition py_replace :: "pstr \<Rightarrow> pstr \<Rightarrow> pstr \<Rightarrow> pstr" where
  "py_replace old new s = re_sub (seqs (map ch old)) new s"

definition count_chr :: "int \<Rightarrow> pstr \<Rightarrow> nat" where
  "count_chr c s = length (filter (\<lambda>x. x = c) s)"

text \<open>The lines of the text: stripped, empty ones dropped, the replacement character,
  U+F0B7 and the middle dot turned into a bullet, and a line that starts with a bullet and
  holds at least two split into one bulleted line per part.\<close>

definition normalize_line :: "pstr \<Rightarrow> pstr list" where
  "normalize_line line =
     (let normalized = re_sub (Plus (one_of [65533, 61623, 183])) [8226] line in
      if count_chr 8226 normalized \<ge> 2 \<and> startswith (strip normalized) [8226]
      then map (\<lambda>p. [8226, 32] @ p)
             (filter (\<lambda>p. p \<noteq> [])
                (map strip (re_split (seqs [Star space, ch 8226, Plus space]) normalized)))
      else [normalized])"

definition text_lines :: "pstr \<Rightarrow> pstr list" where
  "text_lines t =
     concat (map normalize_line (filter (\<lambda>l. l \<noteq> []) (map strip (splitlines t))))"

datatype sect = Education | Experience | Projects | Skills | Languages | Certifications

text \<open>\<^verbatim>\<open>hdr_alias\<close>, in the order of the dictionary.\<close>

definition hdr_alias :: "(sect \<times> pstr \<times> pstr list) list" where
  "hdr_alias =
     [(Education, lit ''education'', [lit ''education'']),
      (Experience, lit ''experience'',
         [lit ''experience'', lit ''work experience'', lit ''employment history'']),
      (Projects, lit ''projects'', [lit ''projects'', lit ''project'']),
      (Skills, lit ''skills'', [lit ''skills'', lit ''skill'']),
      (Languages, lit ''languages'', [lit ''languages'', lit ''language'']),
      (Certifications, lit ''certifications'', [lit ''certifications'', lit ''certificates''])]"

definition which_section :: "pstr \<Rightarrow> sect option" where
  "which_section s =
     (let v = norm_header s in
      map_option fst
        (find (\<lambda>(sec, key, al). v = key \<or> v \<in> set al \<or> startswith v (key @ lit '' ''))
           hdr_alias))"

text \<open>\<^verbatim>\<open>h if h in bucket\<close>: the section whose key is exactly \<open>h\<close>.\<close>

definition bucket_key :: "pstr \<Rightarrow> sect option" where
  "bucket_key h = map_option fst (find (\<lambda>(sec, key, al). h = key) hdr_alias)"

definition header_re :: re where
  "header_re = seqs [Bol,
     Grp 1 (alts [wordi ''education'', wordi ''experience'',
                  seqs [wordi ''work'', Plus space, wordi ''experience''],
                  seqs [wordi ''employment'', Plus space, wordi ''history''],
                  wordi ''projects'', wordi ''skills'', wordi ''languages'',
                  wordi ''certifications'', wordi ''certificates'']),
     Star space, Opt (one_of [58, 65306]), Star space, Grp 2 (Star dot), Eol]"

text \<open>The state of the bucketing loop: the lines of each section, the preamble, and the
  current section.\<close>

type_synonym bucket_state = "(sect \<Rightarrow> pstr list) \<times> pstr list \<times> sect option"

definition bucket_step :: "bucket_state \<Rightarrow> pstr \<Rightarrow> bucket_state" where
  "bucket_step st line =
     (let bucket = fst st; preamble = fst (snd st); current = snd (snd st) in
      case re_match header_re line of
        Some g \<Rightarrow>
          (let h = py_replace (lit ''work experience'') (lit ''experience'') (lower (grp g 1));
               current' = (case bucket_key h of Some k \<Rightarrow> Some k | None \<Rightarrow> which_section h);
               rest = strip (grp g 2)
           in (case current' of
                 Some k \<Rightarrow> if rest \<noteq> [] then (bucket(k := bucket k @ [rest]), preamble, current')
                           else (bucket, preamble, current')
               | None \<Rightarrow> (bucket, preamble, current')))
      | None \<Rightarrow>
          (case which_section line of
             Some sec \<Rightarrow> (bucket, preamble, Some sec)
           | None \<Rightarrow>
               (case current of
                  Some k \<Rightarrow> (bucket(k := bucket k @ [line]), preamble, current)
                | None \<Rightarrow> (bucket, preamble @ [line], current))))"

definition buckets :: "pstr list \<Rightarrow> bucket_state" where
  "buckets lines = foldl bucket_step ((\<lambda>sec. []), [], None) lines"

subsection \<open>The profile\<close>

text \<open>The education, experience and projects entries of the dictionary that
  \<^verbatim>\<open>parse_text_preserve\<close> returns; the function returns the empty dictionary (here
  \<open>None\<close>) for a text without lines. The entries built from the preamble (name, contact,
  location, summary) and the skills and languages lists are left out of this model.\<close>

record preserve_profile =
  pp_education :: "education list"
  pp_experience :: "experience list"
  pp_projects :: "experience list"

definition parse_text_preserve :: "pstr \<Rightarrow> preserve_profile option" where
  "parse_text_preserve t =
     (let lines = text_lines t in
      if lines = [] then None
      else
        let bucket = fst (buckets lines);
            (edu, moved_to_exp) = parse_education (bucket Education);
            exps = parse_experience (bucket Experience);
            (projects, edu_from_projects) = parse_projects (bucket Projects)
        in Some \<lparr>pp_education = edu @ edu_from_projects,
                  pp_experience = exps @ moved_to_exp,
                  pp_projects = projects\<rparr>)"

subsection \<open>The profile schema (modules/profile/schemas.py)\<close>

text \<open>\<^verbatim>\<open>Education\<close> declares \<^verbatim>\<open>school: str\<close>, a required string, and \<^verbatim>\<open>Experience\<close>
  declares \<^verbatim>\<open>company: str\<close>, which the segmenter always sets. The upload route builds
  \<^verbatim>\<open>Profile(**prof_dict_t)\<close> from the dictionary of the segmenter, and the construction
  raises a validation error when an education record has no school.\<close>

datatype schema_error = SchoolRequired

definition build_profile :: "preserve_profile \<Rightarrow> schema_error + preserve_profile" where
  "build_profile p =
     (if list_all (\<lambda>e. e_school e \<noteq> None) (pp_education p) then Inr p else Inl SchoolRequired)"


section \<open>The job description parser (modules/jd/parser.py)\<close>

subsection \<open>JSON values and the parsed document\<close>

text \<open>
  The values \<^verbatim>\<open>json.loads\<close> returns. A dictionary is the list of its items in order, with
  distinct keys; \<open>JNull\<close> is \<^verbatim>\<open>None\<close>, which is also what \<^verbatim>\<open>dict.get\<close> gives for a missing
  key.
\<close>

datatype json =
    JNull
  | JBool bool
  | JInt int
  | JFloat real
  | JStr pstr
  | JList "json list"
  | JDict "(pstr \<times> json) list"

fun jtruthy :: "json \<Rightarrow> bool" where
  "jtruthy JNull = False"
| "jtruthy (JBool b) = b"
| "jtruthy (JInt i) = (i \<noteq> 0)"
| "jtruthy (JFloat x) = (x \<noteq> 0)"
| "jtruthy (JStr s) = (s \<noteq> [])"
| "jtruthy (JList l) = (l \<noteq> [])"
| "jtruthy (JDict d) = (d \<noteq> [])"

definition jor :: "json \<Rightarrow> json \<Rightarrow> json" where
  "jor a b = (if jtruthy a then a else b)"

fun jget :: "json \<Rightarrow> string \<Rightarrow> json" where
  "jget (JDict d) k = (case map_of d (lit k) of None \<Rightarrow> JNull | Some v \<Rightarrow> v)"
| "jget j k = JNull"

fun jhas :: "json \<Rightarrow> string \<Rightarrow> bool" where
  "jhas (JDict d) k = (map_of d (lit k) \<noteq> None)"
| "jhas j k = False"

fun is_dict :: "json \<Rightarrow> bool" where
  "is_dict (JDict d) = True"
| "is_dict j = False"

definition of_opt :: "pstr option \<Rightarrow> json" where
  "of_opt a = (case a of None \<Rightarrow> JNull | Some s \<Rightarrow> JStr s)"

text \<open>
  What the parser reads through libraries is taken as given. The three library functions
  it applies to strings are parameters: \<^verbatim>\<open>json.loads\<close> (\<open>None\<close> when it raises), the text
  of an HTML fragment (\<^verbatim>\<open>BeautifulSoup(s, "lxml").get_text("\n", strip=True)\<close>), and
  \<^verbatim>\<open>str\<close> on a JSON value that is not a string.
\<close>

record lib =
  json_loads :: "pstr \<Rightarrow> json option"
  html_text :: "pstr \<Rightarrow> pstr"
  py_repr :: "json \<Rightarrow> pstr"

definition py_str :: "lib \<Rightarrow> json \<Rightarrow> pstr" where
  "py_str L j = (case j of JStr s \<Rightarrow> s | _ \<Rightarrow> py_repr L j)"

text \<open>
  The element after a heading, as \<^verbatim>\<open>_extract_lists_by_headings\<close> reads it: the first
  following sibling that is neither \<^verbatim>\<open>br\<close> nor \<^verbatim>\<open>hr\<close>. A list carries the texts of its
  \<^verbatim>\<open>li\<close> elements, a paragraph its text.
\<close>

datatype sibling = NoSibling | ListSibling "pstr list" | ParaSibling pstr | OtherSibling

text \<open>
  The parsed document, given by the answers to the queries the parser makes:
  the raw contents of the \<^verbatim>\<open>ld+json\<close> scripts in document order; the string of the
  \<^verbatim>\<open>__NEXT_DATA__\<close> script; the \<^verbatim>\<open>content\<close> of the \<^verbatim>\<open>og:title\<close> meta tag, the text of
  \<^verbatim>\<open>title\<close> and of the first \<^verbatim>\<open>h1\<close>; the contents of the three description meta tags
  in the order they are tried; the stripped texts of the first elements matching the three
  company selectors and the content of \<^verbatim>\<open>og:site_name\<close>; the stripped texts of the three
  Seek \<^verbatim>\<open>data-automation\<close> elements; every \<^verbatim>\<open>h1\<close>..\<^verbatim>\<open>h4\<close> with its text and what follows
  it; and the item texts of every \<^verbatim>\<open>ul\<close>. A missing element or attribute is \<open>None\<close>.
\<close>

record soup =
  ld_scripts :: "pstr list"
  next_data :: "pstr option"
  og_title :: "pstr option"
  title_tag :: "pstr option"
  h1_tag :: "pstr option"
  meta_descriptions :: "pstr option list"
  company_tags :: "pstr option list"
  og_site_name :: "pstr option"
  seek_dom_title :: "pstr option"
  seek_dom_company :: "pstr option"
  seek_dom_location :: "pstr option"
  headers :: "(pstr \<times> sibling) list"
  ul_items :: "pstr list list"

datatype py_error = TypeError | ValidationError

subsection \<open>Vocabularies\<close>

definition HEADINGS_RESP :: re where
  "HEADINGS_RESP = alts (map wordi [''responsibilit'', ''what you'' @ [CHR 0x27] @ ''ll do'',
     ''what you will do'', ''key duties'', ''about the role''])"

definition HEADINGS_REQ :: re where
  "HEADINGS_REQ = alts (map wordi [''requirement'', ''qualification'', ''about you'', ''skills'',
     ''experience'', ''what you bring''])"

definition RESP_VERBS :: re where
  "RESP_VERBS = seqs [WordB,
     Grp 1 (alts [wordi ''design'', wordi ''develop'', wordi ''build'', wordi ''implement'',
       wordi ''maintain'', wordi ''deliver'', wordi ''own'', wordi ''lead'',
       seqs [wordi ''optimi'', one_of_i (lit ''sz''), wordi ''e''],
       wordi ''deploy'', wordi ''monitor'', wordi ''troubleshoot'']),
     WordB]"

definition REQ_TOKENS :: re where
  "REQ_TOKENS = seqs [WordB,
     Grp 1 (alts (map wordi [''experience'', ''knowledge'', ''degree'', ''bachelor'', ''master'',
       ''proficient'', ''familiar'', ''required'', ''preferred''])),
     WordB]"

definition SPLIT_DELIMS :: re where
  "SPLIT_DELIMS = alts [Seq (Opt (ch 13)) (ch 10), ch 8226, ch 8226, ch 59,
     Seq (Behind (\<lambda>c. c = 46)) (Plus space)]"

definition TECH_TOKENS :: "string list" where
  "TECH_TOKENS =
     [''python'', ''java'', ''c++'', ''c#'', ''go'', ''typescript'', ''javascript'', ''react'',
      ''node'', ''spring'', ''docker'', ''kubernetes'', ''aws'', ''azure'', ''gcp'', ''sql'',
      ''postgres'', ''mysql'', ''mongodb'', ''terraform'', ''linux'', ''git'', ''ci/cd'', ''ros'',
      ''opencv'', ''pytorch'', ''tensorflow'', ''fastapi'']"

definition matches :: "re \<Rightarrow> pstr \<Rightarrow> bool" where
  "matches r s = (re_search r s \<noteq> None)"

text \<open>The classification by verbs and tokens that three places of the parser share: a text
  with a responsibility verb goes to the first list, otherwise one with a requirement
  token to the second.\<close>

fun classify :: "pstr list \<Rightarrow> pstr list \<times> pstr list" where
  "classify [] = ([], [])"
| "classify (t # ts) =
     (let (resps, reqs) = classify ts in
      if matches RESP_VERBS t then (t # resps, reqs)
      else if matches REQ_TOKENS t then (resps, t # reqs)
      else (resps, reqs))"

text \<open>\<^verbatim>\<open>list(dict.fromkeys(xs))\<close>: the first occurrence of every element, in order.\<close>

fun fromkeys_from :: "'a list \<Rightarrow> 'a list \<Rightarrow> 'a list" where
  "fromkeys_from seen [] = []"
| "fromkeys_from seen (x # xs) =
     (if x \<in> set seen then fromkeys_from seen xs else x # fromkeys_from (x # seen) xs)"

definition fromkeys :: "'a list \<Rightarrow> 'a list" where
  "fromkeys xs = fromkeys_from [] xs"

text \<open>\<^verbatim>\<open>[s.strip() for s in re.split(r"[\n\<bullet>\-\*]", d) if len(s.strip()) > n]\<close>.\<close>

definition split_bullets :: "nat \<Rightarrow> pstr \<Rightarrow> pstr list" where
  "split_bullets n d =
     filter (\<lambda>s. length s > n) (map strip (re_split (one_of [10, 8226, 45, 42]) d))"

subsection \<open>Structured data: the JobPosting blocks\<close>

text \<open>The variables \<^verbatim>\<open>_extract_from_json_ld\<close> fills. Title, company and location hold
  whatever value the block gives: nothing checks that it is a string.\<close>

record ld_fields =
  f_title :: json
  f_company :: json
  f_location :: json
  f_responsibilities :: "pstr list"
  f_requirements :: "pstr list"
  f_descriptions :: "pstr list"

definition ld_empty :: ld_fields where
  "ld_empty = \<lparr>f_title = JNull, f_company = JNull, f_location = JNull,
     f_responsibilities = [], f_requirements = [], f_descriptions = []\<rparr>"

fun is_str :: "json \<Rightarrow> bool" where
  "is_str (JStr s) = True"
| "is_str j = False"

fun str_of :: "json \<Rightarrow> pstr" where
  "str_of (JStr s) = s"
| "str_of j = []"

text \<open>\<^verbatim>\<open>sep.join(items)\<close> raises \<^verbatim>\<open>TypeError\<close> when an item is not a string.\<close>

definition join_json :: "pstr \<Rightarrow> json list \<Rightarrow> py_error + pstr" where
  "join_json sep items =
     (if list_all is_str items then Inr (join sep (map str_of items)) else Inl TypeError)"

text \<open>The \<^verbatim>\<open>responsibilities\<close> and \<^verbatim>\<open>qualifications\<close> fields: the stripped non-empty
  \<^verbatim>\<open>str(x)\<close> of the items of a list, or the pieces of a string.\<close>

definition list_or_split :: "lib \<Rightarrow> json \<Rightarrow> pstr list" where
  "list_or_split L v =
     (case v of
        JList xs \<Rightarrow> filter (\<lambda>t. t \<noteq> []) (map (\<lambda>x. strip (py_str L x)) xs)
      | JStr t \<Rightarrow> split_bullets 0 t
      | _ \<Rightarrow> [])"

text \<open>\<^verbatim>\<open>t = obj.get("@type") or obj.get("type")\<close>, a list joined with commas.\<close>

definition posting_type :: "json \<Rightarrow> py_error + json" where
  "posting_type obj =
     (case jor (jget obj ''@type'') (jget obj ''type'') of
        JList ts \<Rightarrow> map_sum id JStr (join_json (lit '','') ts)
      | t \<Rightarrow> Inr t)"

text \<open>The location of a block: kept when already set; otherwise, when \<^verbatim>\<open>jobLocation\<close> and
  its \<^verbatim>\<open>address\<close> are dictionaries, the truthy ones of locality, region and country
  joined with a comma and a space.\<close>

definition posting_location :: "json \<Rightarrow> json \<Rightarrow> py_error + json" where
  "posting_location location obj =
     (let loc = jor (jget obj ''jobLocation'') (JDict []) in
      if is_dict loc then
        (let addr = jor (jget loc ''address'') (JDict []) in
         if is_dict addr then
           (if jtruthy location then Inr location
            else map_sum id JStr
              (join_json (lit '', '')
                 (filter jtruthy [jget addr ''addressLocality'', jget addr ''addressRegion'',
                                  jget addr ''addressCountry''])))
         else Inr location)
      else Inr location)"

definition handle_jobposting :: "lib \<Rightarrow> ld_fields \<Rightarrow> json \<Rightarrow> py_error + ld_fields" where
  "handle_jobposting L st obj =
     (if is_dict obj then
        (case posting_type obj of
           Inl e \<Rightarrow> Inl e
         | Inr t \<Rightarrow>
             if jtruthy t \<and> contains (py_str L t) (lit ''JobPosting'') then
               (let title = jor (f_title st) (jget obj ''title'');
                    org = jor (jget obj ''hiringOrganization'') (JDict []);
                    company = (if is_dict org then jor (f_company st) (jget org ''name'')
                               else f_company st)
                in case posting_location (f_location st) obj of
                     Inl e \<Rightarrow> Inl e
                   | Inr location \<Rightarrow>
                       Inr \<lparr>f_title = title, f_company = company, f_location = location,
                            f_responsibilities = f_responsibilities st
                              @ list_or_split L (jget obj ''responsibilities''),
                            f_requirements = f_requirements st
                              @ list_or_split L (jor (jget obj ''qualifications'')
                                                     (jget obj ''experienceRequirements'')),
                            f_descriptions = f_descriptions st
                              @ (case jget obj ''description'' of
                                   JStr d \<Rightarrow> if strip d \<noteq> [] then [html_text L d] else []
                                 | _ \<Rightarrow> [])\<rparr>)
             else Inr st)
      else Inr st)"

fun handle_all :: "lib \<Rightarrow> ld_fields \<Rightarrow> json list \<Rightarrow> py_error + ld_fields" where
  "handle_all L st [] = Inr st"
| "handle_all L st (x # xs) =
     (case handle_jobposting L st x of Inl e \<Rightarrow> Inl e | Inr st' \<Rightarrow> handle_all L st' xs)"

text \<open>One \<^verbatim>\<open>ld+json\<close> script: skipped when empty or when \<^verbatim>\<open>json.loads\<close> raises on it and
  on its stripped form; a dictionary with a list under \<^verbatim>\<open>@graph\<close> gives its nodes, any
  other dictionary itself, a list its items.\<close>

definition ld_script :: "lib \<Rightarrow> ld_fields \<Rightarrow> pstr \<Rightarrow> py_error + ld_fields" where
  "ld_script L st raw =
     (if raw = [] then Inr st
      else
        case (case json_loads L raw of
                Some d \<Rightarrow> Some d
              | None \<Rightarrow> json_loads L (strip_by (\<lambda>c. c = 59) (strip raw))) of
          None \<Rightarrow> Inr st
        | Some (JDict d) \<Rightarrow>
            (case map_of d (lit ''@graph'') of
               Some (JList nodes) \<Rightarrow> handle_all L st nodes
             | _ \<Rightarrow> handle_jobposting L st (JDict d))
        | Some (JList items) \<Rightarrow> handle_all L st items
        | Some _ \<Rightarrow> Inr st)"

fun ld_scripts_from :: "lib \<Rightarrow> ld_fields \<Rightarrow> pstr list \<Rightarrow> py_error + ld_fields" where
  "ld_scripts_from L st [] = Inr st"
| "ld_scripts_from L st (raw # raws) =
     (case ld_script L st raw of Inl e \<Rightarrow> Inl e | Inr st' \<Rightarrow> ld_scripts_from L st' raws)"

definition extract_from_json_ld :: "lib \<Rightarrow> soup \<Rightarrow> py_error + ld_fields" where
  "extract_from_json_ld L sp = ld_scripts_from L ld_empty (ld_scripts sp)"

subsection \<open>Site-specific embedded state\<close>

record seek_fields =
  s_title :: "pstr option"
  s_company :: "pstr option"
  s_location :: "pstr option"
  s_responsibilities :: "pstr list"
  s_requirements :: "pstr list"
  s_descriptions :: "pstr list"

definition seek_empty :: seek_fields where
  "seek_empty = \<lparr>s_title = None, s_company = None, s_location = None,
     s_responsibilities = [], s_requirements = [], s_descriptions = []\<rparr>"

text \<open>\<^verbatim>\<open>_walk_json\<close> yields a dictionary and then walks its values; it walks the items of
  a list without yielding the list.\<close>

fun walk_json :: "json \<Rightarrow> json list" where
  "walk_json (JDict d) = JDict d # concat (map (\<lambda>kv. walk_json (snd kv)) d)"
| "walk_json (JList l) = concat (map walk_json l)"
| "walk_json j = []"

definition seek_title :: "json \<Rightarrow> string \<Rightarrow> seek_fields \<Rightarrow> seek_fields" where
  "seek_title node k st =
     (case jget node k of
        JStr t \<Rightarrow> if length t > 2 then st\<lparr>s_title := por (s_title st) (Some (strip t))\<rparr> else st
      | _ \<Rightarrow> st)"

definition seek_company :: "json \<Rightarrow> seek_fields \<Rightarrow> seek_fields" where
  "seek_company node st =
     (let adv = jor (jor (jget node ''advertiser'') (jget node ''company''))
                    (jget node ''hiringOrganization'') in
      if is_dict node \<and> is_dict adv then
        (case jor (jget adv ''name'') (jget adv ''companyName'') of
           JStr nm \<Rightarrow> if strip nm \<noteq> [] then st\<lparr>s_company := por (s_company st) (Some (strip nm))\<rparr>
                      else st
         | _ \<Rightarrow> st)
      else st)"

definition seek_location :: "json \<Rightarrow> seek_fields \<Rightarrow> seek_fields" where
  "seek_location node st =
     (case jget node ''location'' of
        JStr t \<Rightarrow> if length t > 1 then st\<lparr>s_location := por (s_location st) (Some (strip t))\<rparr>
                  else st
      | _ \<Rightarrow> st)"

text \<open>The branch for a node that is a non-empty list of strings: the stripped strings
  longer than 3 are classified, and all of them are added to the descriptions.\<close>

definition seek_strings :: "json \<Rightarrow> seek_fields \<Rightarrow> seek_fields" where
  "seek_strings node st =
     (case node of
        JList xs \<Rightarrow>
          if xs \<noteq> [] \<and> list_all is_str xs then
            (let texts = filter (\<lambda>t. length t > 3) (map (\<lambda>x. strip (str_of x)) xs);
                 (resps, reqs) = classify texts
             in if texts = [] then st
                else st\<lparr>s_responsibilities := s_responsibilities st @ resps,
                        s_requirements := s_requirements st @ reqs,
                        s_descriptions := s_descriptions st @ texts\<rparr>)
          else st
      | _ \<Rightarrow> st)"

definition seek_rich :: "lib \<Rightarrow> json \<Rightarrow> string \<Rightarrow> seek_fields \<Rightarrow> seek_fields" where
  "seek_rich L node k st =
     (case jget node k of
        JStr d \<Rightarrow> (let t = html_text L d in
                   if length t > 10 then st\<lparr>s_descriptions := s_descriptions st @ [t]\<rparr> else st)
      | _ \<Rightarrow> st)"

text \<open>The body of the loop over the nodes, in the order of the source.\<close>

definition seek_node :: "lib \<Rightarrow> seek_fields \<Rightarrow> json \<Rightarrow> seek_fields" where
  "seek_node L st node =
     seek_rich L node ''body'' (seek_rich L node ''content'' (seek_rich L node ''description''
       (seek_strings node
         (seek_location node (seek_company node
           (seek_title node ''title'' (seek_title node ''jobTitle'' st)))))))"

definition parse_seek_next_data :: "lib \<Rightarrow> soup \<Rightarrow> seek_fields" where
  "parse_seek_next_data L sp =
     (case next_data sp of
        None \<Rightarrow> seek_empty
      | Some raw \<Rightarrow>
          if raw = [] then seek_empty
          else
            case json_loads L raw of
              None \<Rightarrow> seek_empty
            | Some data \<Rightarrow>
                (let st = foldl (seek_node L) seek_empty (walk_json data)
                 in st\<lparr>s_responsibilities := fromkeys (s_responsibilities st),
                        s_requirements := fromkeys (s_requirements st),
                        s_descriptions := fromkeys (s_descriptions st)\<rparr>))"

subsection \<open>Page fallbacks\<close>

text \<open>\<^verbatim>\<open>_extract_title\<close>: the \<^verbatim>\<open>og:title\<close> content, else the text of \<^verbatim>\<open>title\<close>, else the text
  of the first \<^verbatim>\<open>h1\<close>.\<close>

definition extract_title :: "soup \<Rightarrow> pstr option" where
  "extract_title sp =
     (if truthy (og_title sp) then map_option strip (og_title sp)
      else if truthy (title_tag sp) then map_option strip (title_tag sp)
      else map_option strip (h1_tag sp))"

text \<open>The first truthy one of a list of optional strings.\<close>

definition first_truthy :: "pstr option list \<Rightarrow> pstr option" where
  "first_truthy xs = (case find truthy xs of None \<Rightarrow> None | Some x \<Rightarrow> x)"

definition extract_meta_description :: "soup \<Rightarrow> pstr option" where
  "extract_meta_description sp = map_option strip (first_truthy (meta_descriptions sp))"

definition extract_company :: "soup \<Rightarrow> pstr option" where
  "extract_company sp =
     (if truthy (first_truthy (company_tags sp)) then first_truthy (company_tags sp)
      else if truthy (og_site_name sp) then map_option strip (og_site_name sp)
      else None)"

text \<open>\<^verbatim>\<open>_seek_dom_fields\<close>: each field is the text of its element when that is non-empty.\<close>

definition dom_field :: "pstr option \<Rightarrow> pstr option" where
  "dom_field t = (if truthy t then t else None)"

definition seek_dom_fields :: "soup \<Rightarrow> pstr option \<times> pstr option \<times> pstr option" where
  "seek_dom_fields sp =
     (dom_field (seek_dom_title sp), dom_field (seek_dom_company sp),
      dom_field (seek_dom_location sp))"

fun sibling_items :: "sibling \<Rightarrow> pstr list" where
  "sibling_items (ListSibling its) = its"
| "sibling_items (ParaSibling t) = [t]"
| "sibling_items s = []"

fun extract_lists_by_headings_from :: "(pstr \<times> sibling) list \<Rightarrow> pstr list \<times> pstr list" where
  "extract_lists_by_headings_from [] = ([], [])"
| "extract_lists_by_headings_from ((t, sib) # hs) =
     (let (resps, reqs) = extract_lists_by_headings_from hs; items = sibling_items sib in
      if matches HEADINGS_RESP t then (items @ resps, reqs)
      else if matches HEADINGS_REQ t then (resps, items @ reqs)
      else (resps, reqs))"

definition extract_lists_by_headings :: "soup \<Rightarrow> pstr list \<times> pstr list" where
  "extract_lists_by_headings sp = extract_lists_by_headings_from (headers sp)"

definition extract_generic_lists :: "soup \<Rightarrow> pstr list \<times> pstr list" where
  "extract_generic_lists sp = classify (filter (\<lambda>t. length t \<ge> 3) (concat (ul_items sp)))"

subsection \<open>Post-processing\<close>

text \<open>\<^verbatim>\<open>s.capitalize()\<close>: the title-case form of the first character, the rest in lower
  case.\<close>

definition py_capitalize :: "pstr \<Rightarrow> pstr" where
  "py_capitalize s = (case s of [] \<Rightarrow> [] | c # cs \<Rightarrow> title_of c @ lower_from s 1 cs)"

text \<open>\<^verbatim>\<open>sorted\<close> of a set of strings: by code points, without repetition.\<close>

definition sorted_set :: "pstr list \<Rightarrow> pstr list" where
  "sorted_set xs = sort (remdups xs)"

definition extract_keywords :: "pstr list \<Rightarrow> pstr list" where
  "extract_keywords texts =
     (let lowtexts = lower (join [10] texts) in
      sorted_set
        (map (\<lambda>token. if token \<in> set [''aws'', ''gcp'', ''sql'', ''ros''] then upper (lit token)
                       else py_capitalize (lit token))
           (filter (\<lambda>token. contains lowtexts (lit token)) TECH_TOKENS)))"

definition question_start :: "pstr \<Rightarrow> bool" where
  "question_start low =
     (startswith low (lit ''how many'') \<or> startswith low (lit ''how much'')
      \<or> startswith low (lit ''what is'') \<or> startswith low (lit ''what'' @ [39] @ lit ''s'')
      \<or> startswith low (lit ''when can'') \<or> startswith low (lit ''do you''))"

definition filter_questions :: "pstr list \<Rightarrow> pstr list" where
  "filter_questions items =
     filter (\<lambda>s_clean. s_clean \<noteq> [] \<and> \<not> endswith s_clean (lit ''?'')
                        \<and> \<not> question_start (lower s_clean))
       (map strip items)"

text \<open>\<^verbatim>\<open>head.split()\<close>: the words between runs of whitespace.\<close>

definition ws_words :: "pstr \<Rightarrow> pstr list" where
  "ws_words s = filter (\<lambda>w. w \<noteq> []) (re_split (Plus space) s)"

text \<open>What one item of \<^verbatim>\<open>_split_compound_items\<close> expands to: nothing when it is blank;
  otherwise a short label before the first colon is dropped, the rest is split at the
  delimiters, and the pieces longer than 3 after trimming are kept, or the whole item when
  there is none.\<close>

definition split_item :: "pstr \<Rightarrow> pstr list" where
  "split_item item =
     (let text0 = strip item in
      if text0 = [] then []
      else
        let head = takeWhile (\<lambda>c. c \<noteq> 58) text0;
            tail = drop 1 (dropWhile (\<lambda>c. c \<noteq> 58) text0);
            base = (if 58 \<in> set text0 \<and> length (ws_words head) \<le> 6 \<and> strip tail \<noteq> []
                    then strip tail else text0);
            parts = filter (\<lambda>seg. length seg > 3)
                      (map (strip_by (\<lambda>c. c \<in> {32, 46, 59, 44, 45, 8226}))
                         (re_split SPLIT_DELIMS base))
        in if parts \<noteq> [] then parts else [text0])"

definition split_compound_items :: "pstr list \<Rightarrow> pstr list" where
  "split_compound_items items = fromkeys (concat (map split_item items))"

subsection \<open>The whole parser\<close>

record parsed_jd =
  jd_title :: "pstr option"
  jd_company :: "pstr option"
  jd_location :: "pstr option"
  jd_responsibilities :: "pstr list"
  jd_requirements :: "pstr list"
  jd_benefits :: "pstr list"
  jd_keywords :: "pstr list"

text \<open>The model's fields \<^verbatim>\<open>title\<close>, \<^verbatim>\<open>company\<close> and \<^verbatim>\<open>location\<close> are optional strings:
  building \<^verbatim>\<open>ParsedJD\<close> raises a validation error for any other value.\<close>

fun validate_str :: "json \<Rightarrow> py_error + pstr option" where
  "validate_str JNull = Inr None"
| "validate_str (JStr s) = Inr (Some s)"
| "validate_str j = Inl ValidationError"

definition is_seek_url :: "pstr option \<Rightarrow> bool" where
  "is_seek_url url = (case url of None \<Rightarrow> False | Some u \<Rightarrow> u \<noteq> [] \<and> contains u (lit ''seek.com.au''))"

text \<open>The three scalar fields before validation: the embedded state, then the structured
  data, then the page fallback (none for the location), and the Seek DOM fields last, read
  only on a Seek address when one of the three is still missing.\<close>

definition scalar_fields :: "soup \<Rightarrow> pstr option \<Rightarrow> seek_fields \<Rightarrow> ld_fields \<Rightarrow> json \<times> json \<times> json" where
  "scalar_fields sp url sk ld =
     (let title = jor (jor (of_opt (s_title sk)) (f_title ld)) (of_opt (extract_title sp));
          company = jor (jor (of_opt (s_company sk)) (f_company ld)) (of_opt (extract_company sp));
          location = jor (of_opt (s_location sk)) (f_location ld)
      in if (\<not> jtruthy title \<or> \<not> jtruthy company \<or> \<not> jtruthy location) \<and> is_seek_url url
         then (let (td, cd, ld') = seek_dom_fields sp
               in (jor title (of_opt td), jor company (of_opt cd), jor location (of_opt ld')))
         else (title, company, location))"

text \<open>The two lists and the description pool: the merge of the tiers cut at 80, the
  description fallback when there is no responsibility yet, then the splitting of compound
  items, the question filter and the cut at 80.\<close>

definition list_fields :: "soup \<Rightarrow> seek_fields \<Rightarrow> ld_fields \<Rightarrow> pstr list \<times> pstr list \<times> pstr list" where
  "list_fields sp sk ld =
     (let (resp_h, req_h) = extract_lists_by_headings sp;
          (resp_g, req_g) = extract_generic_lists sp;
          responsibilities = take 80 (fromkeys
            (s_responsibilities sk @ f_responsibilities ld @ resp_h @ resp_g));
          requirements = take 80 (fromkeys
            (s_requirements sk @ f_requirements ld @ req_h @ req_g));
          meta_desc = extract_meta_description sp;
          desc_ld = f_descriptions ld
            @ (if responsibilities = [] \<and> truthy meta_desc
               then (case meta_desc of Some m \<Rightarrow> [m] | None \<Rightarrow> []) else [])
            @ s_descriptions sk;
          (resp_d, req_d) =
             (if responsibilities = [] \<and> desc_ld \<noteq> []
              then classify (concat (map (split_bullets 3) desc_ld)) else ([], []))
      in (take 80 (filter_questions (split_compound_items (responsibilities @ resp_d))),
          take 80 (filter_questions (split_compound_items (requirements @ req_d))),
          desc_ld))"

definition parse_html_to_jd :: "lib \<Rightarrow> soup \<Rightarrow> pstr option \<Rightarrow> py_error + parsed_jd" where
  "parse_html_to_jd L sp url =
     (case extract_from_json_ld L sp of
        Inl e \<Rightarrow> Inl e
      | Inr ld \<Rightarrow>
          (let sk = (if is_seek_url url then parse_seek_next_data L sp else seek_empty);
               (title, company, location) = scalar_fields sp url sk ld;
               (responsibilities, requirements, desc_ld) = list_fields sp sk ld;
               keywords = extract_keywords (responsibilities @ requirements @ desc_ld)
           in case validate_str title of
                Inl e \<Rightarrow> Inl e
              | Inr t \<Rightarrow>
                 (case validate_str company of
                    Inl e \<Rightarrow> Inl e
                  | Inr c \<Rightarrow>
                     (case validate_str location of
                        Inl e \<Rightarrow> Inl e
                      | Inr l \<Rightarrow>
                          Inr \<lparr>jd_title = t, jd_company = c, jd_location = l,
                               jd_responsibilities = responsibilities,
                               jd_requirements = requirements,
                               jd_benefits = [],
                               jd_keywords = keywords\<rparr>))))"

subsection \<open>Documents and libraries for the examples\<close>

text \<open>A document in which every query finds nothing, and a library whose
  \<^verbatim>\<open>json.loads\<close> knows the listed texts only, whose HTML-to-text leaves a text as it is
  (right for a text without tags) and whose \<^verbatim>\<open>str\<close> is not called in the examples.\<close>

definition empty_soup :: soup where
  "empty_soup = \<lparr>ld_scripts = [], next_data = None, og_title = None, title_tag = None,
     h1_tag = None, meta_descriptions = [None, None, None],
     company_tags = [None, None, None], og_site_name = None, seek_dom_title = None,
     seek_dom_company = None, seek_dom_location = None, headers = [], ul_items = []\<rparr>"

definition table_lib :: "(string \<times> json) list \<Rightarrow> lib" where
  "table_lib tbl = \<lparr>json_loads = map_of (map (\<lambda>(k, v). (lit k, v)) tbl),
     html_text = (\<lambda>t. t), py_repr = (\<lambda>j. [])\<rparr>"

text \<open>JSON dictionaries and strings with literal keys.\<close>

definition jdict :: "(string \<times> json) list \<Rightarrow> json" where
  "jdict kvs = JDict (map (\<lambda>(k, v). (lit k, v)) kvs)"

definition jstr :: "string \<Rightarrow> json" where
  "jstr t = JStr (lit t)"

subsection \<open>Tier precedence as the specification words it\<close>

text \<open>"The first tier that yields a non-empty value wins": \<open>v\<close> is the first truthy value
  of the tiers in their order, and is empty when no tier has one.\<close>

definition first_tier_wins :: "json list \<Rightarrow> json \<Rightarrow> bool" where
  "first_tier_wins tiers v =
     (case find jtruthy tiers of Some w \<Rightarrow> v = w | None \<Rightarrow> \<not> jtruthy v)"

section \<open>The matching engine (modules/matching/engine.py)\<close>

subsection \<open>Double-precision arithmetic\<close>

text \<open>
  The score is computed in Python floats. A float is modelled by the rational number it
  denotes, and every operation rounds its exact result to the nearest double, ties to the
  even significand (\<open>double\<close>). \<open>binary_exponent x\<close> is the \<open>e\<close> with \<open>2^e \<le> x < 2^(e+1)\<close>;
  the significand has 53 bits. Overflow and subnormal numbers are left out: the values of
  the score computation lie in \<open>[0, 100]\<close> and, when positive, above \<open>1/n\<close> for the number
  \<open>n\<close> of tokens. \<open>round_half_even\<close> is Python's \<^verbatim>\<open>round\<close> to an integer.
\<close>

definition round_half_even :: "rat \<Rightarrow> int" where
  "round_half_even q = (let f = \<lfloor>q\<rfloor>; r = q - of_int f in
     if r < 1 / 2 then f else if 1 / 2 < r then f + 1 else if even f then f else f + 1)"

definition binary_exponent :: "rat \<Rightarrow> int" where
  "binary_exponent x = (let (p, q) = quotient_of x; e0 = bitlen p - bitlen q in
     if 2 powi e0 \<le> x then e0 else e0 - 1)"

definition double_pos :: "rat \<Rightarrow> rat" where
  "double_pos x = (let u = 2 powi (binary_exponent x - 52) in of_int (round_half_even (x / u)) * u)"

definition double :: "rat \<Rightarrow> rat" where
  "double x = (if x = 0 then 0 else if 0 < x then double_pos x else - double_pos (- x))"

subsection \<open>Input and result\<close>

text \<open>The fields of \<^verbatim>\<open>Course\<close> and \<^verbatim>\<open>Profile\<close> that the engine reads; experience and
  projects are experience records, of which it reads company, role and bullets.\<close>

record course =
  c_topics :: "pstr list"
  c_skills :: "pstr list"
  c_tools :: "pstr list"

record profile =
  p_location :: "pstr option"
  p_experience :: "experience list"
  p_projects :: "experience list"
  p_skills :: "pstr list"
  p_courses :: "course list"

record match_input =
  mi_profile :: profile
  mi_jd :: parsed_jd

record match_result =
  m_score :: int
  m_reasons :: "pstr list"
  m_gaps :: "pstr list"
  m_recommendations :: "pstr list"

subsection \<open>Tokens\<close>

text \<open>The class \<^verbatim>\<open>[A-Za-z0-9+#\.]\<close>.\<close>

definition word_char :: "int \<Rightarrow> bool" where
  "word_char c = (is_upper c \<or> is_lower c \<or> (48 \<le> c \<and> c \<le> 57) \<or> c = 43 \<or> c = 35 \<or> c = 46)"

definition WORD_RE :: re where
  "WORD_RE = Plus (Chr word_char)"

definition STOP_TOKENS :: "pstr list" where
  "STOP_TOKENS = map lit [''and'', ''with'', ''for'', ''the'', ''to'', ''of'', ''in'', ''on'', ''team'',
     ''work'', ''skills'', ''experience'', ''support'', ''manage'', ''management'', ''customer'',
     ''service'', ''services'', ''operations'', ''project'', ''projects'', ''responsibilities'']"

definition DISPLAY_MAP :: "(pstr \<times> pstr) list" where
  "DISPLAY_MAP = map (\<lambda>(k, v). (lit k, lit v))
     [(''sql'', ''SQL''), (''aws'', ''AWS''), (''gcp'', ''GCP''), (''api'', ''API''), (''apis'', ''APIs''),
      (''ci'', ''CI''), (''cd'', ''CD''), (''ai'', ''AI''), (''ml'', ''ML''), (''llm'', ''LLM''),
      (''llms'', ''LLMs''), (''python'', ''Python''), (''java'', ''Java''),
      (''javascript'', ''JavaScript''), (''typescript'', ''TypeScript''), (''react'', ''React''),
      (''fastapi'', ''FastAPI'')]"

definition tokens_from_texts :: "pstr list \<Rightarrow> pstr set" where
  "tokens_from_texts texts =
     set (filter (\<lambda>w. length w > 2) (concat (map (\<lambda>t. re_findall WORD_RE (lower t)) texts)))"

definition normalize_profile :: "match_input \<Rightarrow> pstr set" where
  "normalize_profile input =
     (let p = mi_profile input in
      set (map lower (p_skills p))
      \<union> (\<Union>c \<in> set (p_courses p).
            set (map lower (c_skills c)) \<union> set (map lower (c_topics c))
            \<union> set (map lower (c_tools c)))
      \<union> (\<Union>x \<in> set (p_experience p). tokens_from_texts (x_bullets x))
      \<union> (\<Union>x \<in> set (p_projects p). tokens_from_texts (x_bullets x)))"

definition normalize_jd :: "match_input \<Rightarrow> pstr set \<times> pstr set" where
  "normalize_jd input =
     (let jd = mi_jd input in
      (set (map lower (filter (\<lambda>k. k \<noteq> []) (jd_keywords jd))),
       tokens_from_texts (jd_requirements jd @ jd_responsibilities jd)))"

definition clean_token :: "pstr \<Rightarrow> pstr option" where
  "clean_token token =
     (let t = lower (strip token) in
      if t = [] then None
      else if t \<in> set STOP_TOKENS then None
      else if list_ex is_digit t then None
      else Some t)"

definition filter_tokens :: "pstr list \<Rightarrow> pstr list" where
  "filter_tokens tokens = fromkeys (List.map_filter clean_token tokens)"

text \<open>\<^verbatim>\<open>str.title()\<close>: a character after a cased character takes its lower-case form,
  any other character its title-case form.\<close>

fun title_from :: "pstr \<Rightarrow> nat \<Rightarrow> bool \<Rightarrow> pstr \<Rightarrow> pstr" where
  "title_from s i prev_cased [] = []"
| "title_from s i prev_cased (c # cs) =
     (if prev_cased then lower_at s i c else title_of c) @ title_from s (Suc i) (is_cased c) cs"

definition py_title :: "pstr \<Rightarrow> pstr" where
  "py_title t = title_from t 0 False t"

definition display_token :: "pstr \<Rightarrow> pstr" where
  "display_token token =
     (case map_of DISPLAY_MAP token of
        Some d \<Rightarrow> d
      | None \<Rightarrow> if length token \<le> 3 then upper token
                else py_title (py_replace (lit ''_'') (lit '' '') token))"

text \<open>The ellipsis is U+2026 (8230).\<close>

definition format_tokens :: "pstr list \<Rightarrow> nat \<Rightarrow> pstr" where
  "format_tokens tokens limit =
     (let filtered = filter_tokens tokens in
      if filtered = [] then []
      else join (lit '', '') (map display_token (take limit filtered))
           @ (if length filtered > limit then [8230] else []))"

text \<open>The prefix of an evidence line: role and company joined by " / ", with a fixed
  two-character word (U+7ECF U+5386, "experience") when both are empty. Prefix and bullet
  are joined by a space, two em dashes and a space.\<close>

definition evidence_prefix :: "experience \<Rightarrow> pstr" where
  "evidence_prefix x =
     (let role = strip (case x_role x of None \<Rightarrow> [] | Some r \<Rightarrow> r);
          company = strip (x_company x);
          joined = join (lit '' / '') (filter (\<lambda>t. t \<noteq> []) [role, company])
      in if joined \<noteq> [] then joined
         else if company \<noteq> [] then company
         else if role \<noteq> [] then role
         else [32463, 21382])"

text \<open>\<^verbatim>\<open>_collect_bullet_evidence\<close>; its set of tokens is given as a list, of which only the
  elements matter.\<close>

definition collect_bullet_evidence :: "pstr list \<Rightarrow> match_input \<Rightarrow> nat \<Rightarrow> pstr list" where
  "collect_bullet_evidence tokens input limit =
     (let meaningful_tokens = filter_tokens tokens in
      if tokens = [] \<or> meaningful_tokens = [] then []
      else
        map (\<lambda>(prefix, bullet). prefix @ [32, 8212, 8212, 32] @ bullet)
          (take limit
            (fromkeys
              (concat (map (\<lambda>x. map (\<lambda>bullet. (evidence_prefix x, bullet))
                                  (filter (\<lambda>bullet. bullet \<noteq> []
                                       \<and> list_ex (\<lambda>tok. contains (lower bullet) tok) meaningful_tokens)
                                     (x_bullets x)))
                 (p_experience (mi_profile input)))))))"

subsection \<open>The fixed texts of the result\<close>

text \<open>The labels and sentences of the result are Chinese texts, given by their code
  points: "skill match:", "related experience:", "location match: the target position is
  in ", "missing keywords:", "missing coverage of duties:", the two halves of the advice
  to add results for the missing keywords, the advice to add cases for the duties, and the
  four tips for fastapi, c++, python and aws.\<close>

definition label_skill_match :: pstr where
  "label_skill_match = [25216, 33021, 21305, 37197, 65306]"

definition label_related_experience :: pstr where
  "label_related_experience = [30456, 20851, 32463, 21382, 65306]"

definition label_location_match :: pstr where
  "label_location_match = [22320, 28857, 21305, 37197, 65306, 30446, 26631, 23703, 20301, 22312, 32]"

definition label_missing_keywords :: pstr where
  "label_missing_keywords = [32570, 23569, 20851, 38190, 35789, 65306]"

definition label_missing_duties :: pstr where
  "label_missing_duties = [32570, 23569, 32844, 36131, 35206, 30422, 65306]"

definition advice_keywords :: "pstr \<Rightarrow> pstr" where
  "advice_keywords t = [24314, 35758, 34917, 20805, 19982, 32] @ t
     @ [32, 30456, 20851, 30340, 25104, 26524, 25110, 39033, 30446, 32454, 33410, 12290]"

definition advice_duties :: pstr where
  "advice_duties = [24314, 35758, 38024, 23545, 23703, 20301, 32844, 36131, 34917, 20805, 20855,
     20307, 26696, 20363, 65292, 31361, 20986, 34892, 21160, 21160, 35789, 19982, 37327, 21270,
     25351, 26631, 12290]"

definition keyword_tips :: "(pstr \<times> pstr) list" where
  "keyword_tips =
     [(lit ''fastapi'', [24378, 35843, 32, 70, 97, 115, 116, 65, 80, 73, 47, 65, 80, 73, 32, 35774,
        35745, 19982, 27979, 35797, 32463, 39564, 65292, 21253, 25324, 24615, 33021, 25110, 23433,
        20840, 25913, 36827, 12290]),
      (lit ''c++'', [21015, 20986, 20351, 29992, 32, 67, 43, 43, 32, 30340, 20855, 20307, 39033,
        30446, 65292, 35828, 26126, 26631, 20934, 29256, 26412, 21450, 24615, 33021, 20248, 21270,
        25104, 26524, 12290]),
      (lit ''python'', [34917, 20805, 32, 80, 121, 116, 104, 111, 110, 32, 29983, 24577, 65288,
        24322, 27493, 12289, 25968, 25454, 22788, 29702, 12289, 33258, 21160, 21270, 33050, 26412,
        65289, 26041, 38754, 30340, 31034, 20363, 12290]),
      (lit ''aws'', [22914, 26377, 20113, 32463, 39564, 65292, 21487, 28155, 21152, 26381, 21153,
        26632, 65288, 83, 51, 47, 76, 97, 109, 98, 100, 97, 47, 69, 67, 50, 32, 31561, 65289,
        19982, 25104, 26524, 12290])]"

subsection \<open>The match\<close>

text \<open>The ratio of hits: a float division when the set of the description is not empty,
  zero otherwise.\<close>

definition hit_ratio :: "pstr list \<Rightarrow> pstr set \<Rightarrow> rat" where
  "hit_ratio hits jd_set =
     (if jd_set \<noteq> {} then double (of_nat (length hits) / of_nat (max 1 (card jd_set))) else 0)"

text \<open>The location line of the reasons.\<close>

definition location_reason :: "match_input \<Rightarrow> pstr list" where
  "location_reason input =
     (case (jd_location (mi_jd input), p_location (mi_profile input)) of
        (Some jl, Some pl) \<Rightarrow>
          if jl \<noteq> [] \<and> pl \<noteq> [] \<and> contains (lower pl) (lower jl)
          then [label_location_match @ jl] else []
      | _ \<Rightarrow> [])"

definition match :: "match_input \<Rightarrow> match_result" where
  "match input =
     (let prof = normalize_profile input;
          (jd_key, jd_req) = normalize_jd input;
          hit_key = sorted_list_of_set (jd_key \<inter> prof);
          hit_req = sorted_list_of_set (jd_req \<inter> prof);
          display_hit_key = filter_tokens hit_key;
          display_hit_req = filter_tokens hit_req;
          key_ratio = hit_ratio hit_key jd_key;
          req_ratio = hit_ratio hit_req jd_req;
          score = round_half_even
            (double (100 * double (double (double (6 / 10) * key_ratio)
                                   + double (double (4 / 10) * req_ratio))));
          reasons =
            (if display_hit_key \<noteq> [] then [label_skill_match @ format_tokens display_hit_key 6]
             else [])
            @ map (\<lambda>item. label_related_experience @ item)
                (collect_bullet_evidence (display_hit_key @ display_hit_req) input 3)
            @ location_reason input;
          gaps_key = sorted_list_of_set (jd_key - prof);
          gaps_req = sorted_list_of_set {tok \<in> jd_req - prof. tok \<notin> set STOP_TOKENS};
          display_gaps_key = filter_tokens gaps_key;
          display_gaps_req = filter_tokens gaps_req;
          gaps =
            (if display_gaps_key \<noteq> [] then [label_missing_keywords @ format_tokens display_gaps_key 5]
             else [])
            @ (if display_gaps_req \<noteq> [] then [label_missing_duties @ format_tokens display_gaps_req 8]
               else []);
          recs =
            (if display_gaps_key \<noteq> [] then [advice_keywords (format_tokens display_gaps_key 5)]
             else [])
            @ (if display_gaps_req \<noteq> [] then [advice_duties] else [])
            @ map snd (filter (\<lambda>(kw, tip). kw \<in> jd_key \<union> jd_req \<and> kw \<notin> prof) keyword_tips)
      in \<lparr>m_score = score, m_reasons = reasons, m_gaps = gaps, m_recommendations = recs\<rparr>)"

subsection \<open>The score formula\<close>

text \<open>"round(100 \<times> (0.6 \<times> |HK|/max(1,|K|) + 0.4 \<times> |HR|/max(1,|R|)))" for the sizes of the hit
  sets and of the sets of the description. \<open>float_score\<close> evaluates it as the code does, in
  double-precision arithmetic where every operation rounds; \<open>exact_score\<close> evaluates it as
  it is written, in exact arithmetic with the one rounding to an integer.\<close>

definition float_score :: "nat \<Rightarrow> nat \<Rightarrow> nat \<Rightarrow> nat \<Rightarrow> int" where
  "float_score hk k hr r =
     round_half_even
       (double (100 * double (double (double (6 / 10) * double (of_nat hk / of_nat (max 1 k)))
                              + double (double (4 / 10) * double (of_nat hr / of_nat (max 1 r))))))"

definition exact_score :: "nat \<Rightarrow> nat \<Rightarrow> nat \<Rightarrow> nat \<Rightarrow> int" where
  "exact_score hk k hr r =
     round_half_even (100 * (6 / 10 * (of_nat hk / of_nat (max 1 k))
                             + 4 / 10 * (of_nat hr / of_nat (max 1 r))))"

subsection \<open>The token sets in the words of the specification\<close>

text \<open>The words of a string for a class of characters: its maximal runs of characters of
  the class, from left to right.\<close>

function word_runs :: "(int \<Rightarrow> bool) \<Rightarrow> pstr \<Rightarrow> pstr list" where
  "word_runs P [] = []"
| "word_runs P (c # cs) =
     (if P c then (c # takeWhile P cs) # word_runs P (dropWhile P cs) else word_runs P cs)"
  by pat_completeness auto
termination
  by (relation "measure (\<lambda>(P, cs). length cs)") (auto simp: length_dropWhile_le less_Suc_eq_le)

text \<open>The word tokens of a list of texts: the runs of letters, digits, \<^verbatim>\<open>+\<close>, \<^verbatim>\<open>#\<close> and
  \<^verbatim>\<open>.\<close> of the lower-cased texts; \<open>long_words\<close> keeps those of more than two characters.\<close>

definition token_char :: "int \<Rightarrow> bool" where
  "token_char c = ((65 \<le> c \<and> c \<le> 90) \<or> (97 \<le> c \<and> c \<le> 122) \<or> (48 \<le> c \<and> c \<le> 57)
     \<or> c \<in> set (lit ''+#.''))"

definition all_words :: "pstr list \<Rightarrow> pstr set" where
  "all_words texts = set (concat (map (\<lambda>t. word_runs token_char (lower t)) texts))"

definition long_words :: "pstr list \<Rightarrow> pstr set" where
  "long_words texts =
     set (filter (\<lambda>w. 2 < length w) (concat (map (\<lambda>t. word_runs token_char (lower t)) texts)))"

text \<open>The profile token set \<open>P\<close>: the lower-cased skills, the lower-cased skills, topics
  and tools of the courses, and the long words of the bullets of experience and projects.\<close>

definition profile_tokens :: "profile \<Rightarrow> pstr set" where
  "profile_tokens p =
     set (map lower (p_skills p))
     \<union> set (map lower (concat (map (\<lambda>c. c_skills c @ c_topics c @ c_tools c) (p_courses p))))
     \<union> long_words (concat (map x_bullets (p_experience p @ p_projects p)))"

text \<open>The sets as the specification states them: \<open>K\<close> the lower-cased keywords, \<open>R\<close> the
  word tokens of requirements and responsibilities; and the score it states, the formula
  as written on these sets.\<close>

definition stated_K :: "parsed_jd \<Rightarrow> pstr set" where
  "stated_K jd = set (map lower (jd_keywords jd))"

definition stated_R :: "parsed_jd \<Rightarrow> pstr set" where
  "stated_R jd = all_words (jd_requirements jd @ jd_responsibilities jd)"

definition stated_score :: "match_input \<Rightarrow> int" where
  "stated_score input =
     (let K = stated_K (mi_jd input); R = stated_R (mi_jd input);
          P = profile_tokens (mi_profile input)
      in exact_score (card (K \<inter> P)) (card K) (card (R \<inter> P)) (card R))"

text \<open>The sets the score is computed from: \<open>K\<close> the lower-cased non-empty keywords, \<open>R\<close>
  the long words of requirements and responsibilities.\<close>

definition keyword_set :: "parsed_jd \<Rightarrow> pstr set" where
  "keyword_set jd = set (map lower (filter (\<lambda>k. k \<noteq> []) (jd_keywords jd)))"

definition requirement_words :: "parsed_jd \<Rightarrow> pstr set" where
  "requirement_words jd = long_words (jd_requirements jd @ jd_responsibilities jd)"

subsection \<open>Inputs for the examples\<close>

text \<open>Scenario A of the specification: the keywords "python" and "sql", the requirement
  "3+ years experience with Python and SQL", and a profile with the skill "Python"; here
  with a location on both sides and one experience.\<close>

definition example_jd :: parsed_jd where
  "example_jd = \<lparr>jd_title = None, jd_company = None, jd_location = Some (lit ''Sydney''),
     jd_responsibilities = [],
     jd_requirements = [lit ''3+ years experience with Python and SQL''],
     jd_benefits = [], jd_keywords = [lit ''python'', lit ''sql'']\<rparr>"

definition example_profile :: profile where
  "example_profile = \<lparr>p_location = Some (lit ''Sydney, NSW''),
     p_experience = [\<lparr>x_company = lit ''Acme'', x_role = Some (lit ''Developer''),
        x_start = None, x_end = None, x_bullets = [lit ''Built Python services'']\<rparr>],
     p_projects = [], p_skills = [lit ''Python''], p_courses = []\<rparr>"

text \<open>The requirements "Go" and "C#" against the skills "go" and "c#".\<close>

definition short_token_input :: match_input where
  "short_token_input =
     \<lparr>mi_profile = \<lparr>p_location = None, p_experience = [], p_projects = [],
        p_skills = [lit ''go'', lit ''c#''], p_courses = []\<rparr>,
      mi_jd = \<lparr>jd_title = None, jd_company = None, jd_location = None, jd_responsibilities = [],
        jd_requirements = [lit ''Go'', lit ''C#''], jd_benefits = [], jd_keywords = []\<rparr>\<rparr>"

text \<open>The keywords "" and "python" against the skill "python".\<close>

definition empty_keyword_input :: match_input where
  "empty_keyword_input =
     \<lparr>mi_profile = \<lparr>p_location = None, p_experience = [], p_projects = [],
        p_skills = [lit ''python''], p_courses = []\<rparr>,
      mi_jd = \<lparr>jd_title = None, jd_company = None, jd_location = None, jd_responsibilities = [],
        jd_requirements = [], jd_benefits = [], jd_keywords = [[], lit ''python'']\<rparr>\<rparr>"

text \<open>Eight keywords of which the skills hold five, and the requirements "Kubernetes" and
  "Python" of which they hold one.\<close>

definition half_point_input :: match_input where
  "half_point_input =
     \<lparr>mi_profile = \<lparr>p_location = None, p_experience = [], p_projects = [],
        p_skills = [lit ''Python'', lit ''SQL'', lit ''AWS'', lit ''Docker'', lit ''React''],
        p_courses = []\<rparr>,
      mi_jd = \<lparr>jd_title = None, jd_company = None, jd_location = None, jd_responsibilities = [],
        jd_requirements = [lit ''Kubernetes'', lit ''Python''], jd_benefits = [],
        jd_keywords = [lit ''python'', lit ''sql'', lit ''aws'', lit ''docker'', lit ''react'',
          lit ''java'', lit ''linux'', lit ''git'']\<rparr>\<rparr>"

text \<open>A description and a profile that share only a stop word and tokens with digits: the
  keyword "experience", the requirement "Support 2024", the skill "Experience" and the
  bullet "2024 support".\<close>

definition filtered_hits_input :: match_input where
  "filtered_hits_input =
     \<lparr>mi_profile = \<lparr>p_location = None,
        p_experience = [\<lparr>x_company = lit ''Acme'', x_role = None, x_start = None, x_end = None,
          x_bullets = [lit ''2024 support'']\<rparr>],
        p_projects = [], p_skills = [lit ''Experience''], p_courses = []\<rparr>,
      mi_jd = \<lparr>jd_title = None, jd_company = None, jd_location = None, jd_responsibilities = [],
        jd_requirements = [lit ''Support 2024''], jd_benefits = [],
        jd_keywords = [lit ''experience'']\<rparr>\<rparr>"

text \<open>The same input with other location fields.\<close>

definition with_locations :: "pstr option \<Rightarrow> pstr option \<Rightarrow> match_input \<Rightarrow> match_input" where
  "with_locations pl jl input =
     input\<lparr>mi_profile := (mi_profile input)\<lparr>p_location := pl\<rparr>,
           mi_jd := (mi_jd input)\<lparr>jd_location := jl\<rparr>\<rparr>"

section \<open>Properties of the resume segmenter\<close>

lemma proj_step_block:
  "snd (snd (proj_step st line)) =
     snd (snd st) @ (if line \<noteq> [] \<and> \<not> proj_diverted (proj_text_line line) then [proj_text_line line] else [])"
  by (cases "date_range_from_line (proj_text_line line)")
     (auto simp: proj_step_def proj_diverted_def Let_def split: prod.splits option.splits)

lemma proj_foldl_block:
  "snd (snd (foldl proj_step st ls)) =
     snd (snd st) @ map proj_text_line
       (filter (\<lambda>l. l \<noteq> [] \<and> \<not> proj_diverted (proj_text_line l)) ls)"
proof (induction ls arbitrary: st)
  case Nil
  show ?case by simp
next
  case (Cons l ls)
  show ?case
    unfolding foldl_Cons Cons.IH proj_step_block by simp
qed

text \<open>
  C9. The line "Software Engineer, Acme Corp" inside an Experience section gives one
  experience record with company "Acme Corp" and role "Software Engineer", and nothing
  else: both for the experience bucket holding that line and for the whole text made of
  the header line "Experience" followed by that line.
\<close>

theorem role_first_line_in_experience:
  "parse_experience [lit ''Software Engineer, Acme Corp''] =
     [\<lparr>x_company = lit ''Acme Corp'', x_role = Some (lit ''Software Engineer''),
       x_start = None, x_end = None, x_bullets = []\<rparr>]
   \<and> parse_text_preserve (lit ''Experience'' @ [10] @ lit ''Software Engineer, Acme Corp'') =
     Some \<lparr>pp_education = [],
            pp_experience = [\<lparr>x_company = lit ''Acme Corp'',
               x_role = Some (lit ''Software Engineer''),
               x_start = None, x_end = None, x_bullets = []\<rparr>],
            pp_projects = []\<rparr>"
  by code_simp

text \<open>
  C3. On the education lines "University of Melbourne", "Bachelor of Science (Computer
  Science)", "2019 - 2022" the segmenter does not return the one record of the scenario.
  The date-range line finds an open record that has a school and commits it before
  setting the years, so the first record has the school, the degree and the major and no
  dates, and the years end up in a second record that has no school. The whole text made
  of the header "Education" and the three lines gives these two records, and the profile
  cannot be built from them, the school being required. With the date line first, the same
  lines give the single complete record.
\<close>

theorem education_scenario_date_flushes_school:
  "parse_education [lit ''University of Melbourne'',
      lit ''Bachelor of Science (Computer Science)'', lit ''2019 - 2022''] =
     ([\<lparr>e_school = Some (lit ''University of Melbourne''),
        e_degree = Some (lit ''Bachelor of Science''),
        e_major = Some (lit ''Computer Science''), e_start = None, e_end = None\<rparr>,
       \<lparr>e_school = None, e_degree = None, e_major = None,
        e_start = Some (lit ''2019''), e_end = Some (lit ''2022'')\<rparr>], [])
   \<and> parse_text_preserve (lit ''Education'' @ [10] @ lit ''University of Melbourne'' @ [10]
        @ lit ''Bachelor of Science (Computer Science)'' @ [10] @ lit ''2019 - 2022'') =
     Some \<lparr>pp_education =
       [\<lparr>e_school = Some (lit ''University of Melbourne''),
         e_degree = Some (lit ''Bachelor of Science''),
         e_major = Some (lit ''Computer Science''), e_start = None, e_end = None\<rparr>,
        \<lparr>e_school = None, e_degree = None, e_major = None,
         e_start = Some (lit ''2019''), e_end = Some (lit ''2022'')\<rparr>],
       pp_experience = [], pp_projects = []\<rparr>
   \<and> build_profile \<lparr>pp_education =
       [\<lparr>e_school = Some (lit ''University of Melbourne''),
         e_degree = Some (lit ''Bachelor of Science''),
         e_major = Some (lit ''Computer Science''), e_start = None, e_end = None\<rparr>,
        \<lparr>e_school = None, e_degree = None, e_major = None,
         e_start = Some (lit ''2019''), e_end = Some (lit ''2022'')\<rparr>],
       pp_experience = [], pp_projects = []\<rparr> = Inl SchoolRequired
   \<and> parse_education [lit ''2019 - 2022'', lit ''University of Melbourne'',
      lit ''Bachelor of Science (Computer Science)''] =
     ([\<lparr>e_school = Some (lit ''University of Melbourne''),
        e_degree = Some (lit ''Bachelor of Science''),
        e_major = Some (lit ''Computer Science''),
        e_start = Some (lit ''2019''), e_end = Some (lit ''2022'')\<rparr>], [])"
  by code_simp

lemma looks_like_school_truthy: "looks_like_school t \<Longrightarrow> truthy (Some t)"
  by (auto simp: looks_like_school_def)

lemma e_school_set_dates: "e_school (set_dates_edu d c) = e_school c"
  by (simp add: set_dates_edu_def Let_def)

lemma e_school_set_degree: "e_school (set_degree_major l c) = e_school c"
  by (simp add: set_degree_major_def Let_def split: prod.splits)

lemma proj_step_schools:
  "schools_of (proj_step st line) =
     schools_of st @ (if line \<noteq> [] \<and> proj_school_line (proj_text_line line)
                      then [Some (proj_text_line line)] else [])"
proof (cases "line = []")
  case True
  then show ?thesis by (simp add: proj_step_def schools_of_def)
next
  case ne: False
  define t where "t = proj_text_line line"
  define es where "es = fst st"
  define p where "p = fst (snd st)"
  show ?thesis
  proof (cases "date_found (date_range_from_line t)")
    case True
    then obtain d where d: "date_range_from_line t = Some d"
      by (cases "date_range_from_line t") auto
    show ?thesis
      using ne True d
      by (cases p)
         (auto simp: schools_of_def proj_step_def Let_def proj_school_line_def t_def[symmetric]
            p_def[symmetric] es_def[symmetric] pending_school_def e_school_set_dates blank_edu_def
            split: prod.splits)
  next
    case nd: False
    show ?thesis
    proof (cases "looks_like_degree t")
      case True
      then show ?thesis
        using ne nd
        by (cases p)
           (auto simp: schools_of_def proj_step_def Let_def proj_school_line_def t_def[symmetric]
              p_def[symmetric] es_def[symmetric] pending_school_def e_school_set_degree
              blank_edu_def)
    next
      case ng: False
      show ?thesis
      proof (cases "looks_like_school t")
        case True
        have tt: "t \<noteq> []" using looks_like_school_truthy[OF True] by simp
        show ?thesis
          using ne nd ng True tt
          by (cases p)
             (auto simp: schools_of_def proj_step_def Let_def proj_school_line_def t_def[symmetric]
                p_def[symmetric] es_def[symmetric] pending_school_def blank_edu_def
                split: prod.splits)
      next
        case False
        then show ?thesis
          using ne nd ng
          by (cases p)
             (auto simp: schools_of_def proj_step_def Let_def proj_school_line_def t_def[symmetric]
                p_def[symmetric] es_def[symmetric] pending_school_def blank_edu_def)
      qed
    qed
  qed
qed

lemma proj_foldl_schools:
  "schools_of (foldl proj_step st ls) =
     schools_of st @ map Some
       (filter proj_school_line (map proj_text_line (filter (\<lambda>l. l \<noteq> []) ls)))"
proof (induction ls arbitrary: st)
  case Nil
  show ?case by simp
next
  case (Cons l ls)
  show ?case
    by (simp add: Cons.IH proj_step_schools)
qed

lemma flush_pending_schools:
  "map e_school (fst (flush_pending_edu (es, p))) = map e_school es @ pending_school p"
  by (cases p) (simp_all add: pending_school_def)

lemma parse_projects_schools:
  "map e_school (snd (parse_projects proj_lines)) =
     map Some (filter proj_school_line
       (map proj_text_line (filter (\<lambda>l. l \<noteq> []) (merge_brackets proj_lines))))"
  using proj_foldl_schools[of "([], None, [])" "merge_brackets proj_lines"]
  by (simp add: parse_projects_def Let_def flush_pending_schools pending_school_def schools_of_def)

text \<open>
  C7, as the spec states it: every line of the Projects section would be a bullet of the
  synthetic record and no line would go anywhere else. The single project line "Built a
  school management app" is no bullet: it holds the word "school", is read as a school
  line, and comes back as an education record with no Projects record at all. The single
  line "GPA calculator for students" is no bullet either, and is dropped: nothing comes
  back. Nothing comes back either for a date line followed by a degree line.
\<close>

theorem projects_line_routed_to_education:
  "parse_projects [lit ''Built a school management app''] =
     ([], [\<lparr>e_school = Some (lit ''Built a school management app''), e_degree = None,
            e_major = None, e_start = None, e_end = None\<rparr>])
   \<and> parse_projects [lit ''GPA calculator for students''] = ([], [])
   \<and> parse_projects [lit ''2019 - 2022'', lit ''Bachelor of IT''] = ([], [])"
  by code_simp

text \<open>
  C7, amended. After the bracket merge, the bullets of the synthetic "Projects" record are,
  in order, the non-empty lines (each without its leading bullet glyph) that are neither a
  date range, nor a degree line, nor a school line, nor a line mentioning GPA; when no line
  is kept there is no Projects record. The education records found in the section are one
  for each school line, in order, with that line as the school: a date range, a degree
  line or a GPA line gives no record of its own. A school line is a line with a letter
  that holds "university", "college", "institute", "up education", "high school" or
  "school" in any case, and is neither a date range nor a degree line.
\<close>

theorem projects_bullets_are_kept_lines:
  "fst (parse_projects proj_lines) =
     (let block = map proj_text_line
            (filter (\<lambda>l. l \<noteq> [] \<and> \<not> proj_diverted (proj_text_line l))
               (merge_brackets proj_lines))
      in if block \<noteq> [] then [projects_record block] else [])
   \<and> map e_school (snd (parse_projects proj_lines)) =
     map Some (filter proj_school_line
       (map proj_text_line (filter (\<lambda>l. l \<noteq> []) (merge_brackets proj_lines))))"
  by (simp add: parse_projects_schools) (simp add: parse_projects_def Let_def proj_foldl_block)

text \<open>C7 on a section of seven lines: the two project lines are the bullets, the school
  line opens the one education record, and the degree, date and GPA lines give no record
  of their own.\<close>

theorem projects_section_example:
  "parse_projects [lit ''- Built a chat app (React'', lit ''Node)'', lit ''Monash University'',
      lit ''Bachelor of IT'', lit ''2019 - 2022'', lit ''GPA 3.8'', lit ''- Wrote a compiler''] =
     ([projects_record [lit ''Built a chat app (React Node)'', lit ''Wrote a compiler'']],
      [\<lparr>e_school = Some (lit ''Monash University''), e_degree = Some (lit ''Bachelor of IT''),
        e_major = None, e_start = None, e_end = None\<rparr>])
   \<and> map e_school (snd (parse_projects [lit ''- Built a chat app (React'', lit ''Node)'',
        lit ''Monash University'', lit ''Bachelor of IT'', lit ''2019 - 2022'', lit ''GPA 3.8'',
        lit ''- Wrote a compiler''])) = [Some (lit ''Monash University'')]"
proof -
  have e: "parse_projects [lit ''- Built a chat app (React'', lit ''Node)'', lit ''Monash University'',
      lit ''Bachelor of IT'', lit ''2019 - 2022'', lit ''GPA 3.8'', lit ''- Wrote a compiler''] =
     ([projects_record [lit ''Built a chat app (React Node)'', lit ''Wrote a compiler'']],
      [\<lparr>e_school = Some (lit ''Monash University''), e_degree = Some (lit ''Bachelor of IT''),
        e_major = None, e_start = None, e_end = None\<rparr>])"
    by code_simp
  have f: "map Some (filter proj_school_line (map proj_text_line (filter (\<lambda>l. l \<noteq> [])
      (merge_brackets [lit ''- Built a chat app (React'', lit ''Node)'', lit ''Monash University'',
        lit ''Bachelor of IT'', lit ''2019 - 2022'', lit ''GPA 3.8'', lit ''- Wrote a compiler'']))))
      = [Some (lit ''Monash University'')]"
    by code_simp
  from projects_bullets_are_kept_lines[of "[lit ''- Built a chat app (React'', lit ''Node)'',
      lit ''Monash University'', lit ''Bachelor of IT'', lit ''2019 - 2022'', lit ''GPA 3.8'',
      lit ''- Wrote a compiler'']"] e f
  show ?thesis by simp
qed

section \<open>Properties of the job description parser\<close>

lemma fromkeys_from_set: "set (fromkeys_from seen xs) = set xs - set seen"
  by (induction xs arbitrary: seen) auto

lemma fromkeys_from_distinct: "distinct (fromkeys_from seen xs)"
  by (induction xs arbitrary: seen) (auto simp: fromkeys_from_set)

lemma fromkeys_distinct: "distinct (fromkeys xs)"
  by (simp add: fromkeys_def fromkeys_from_distinct)

lemma fromkeys_set: "set (fromkeys xs) = set xs"
  by (simp add: fromkeys_def fromkeys_from_set)

lemma walk_json_dicts: "list_all is_dict (walk_json j)"
  by (induction j rule: walk_json.induct) (auto simp: list_all_iff)

lemma seek_strings_dict: "is_dict node \<Longrightarrow> seek_strings node st = st"
  by (cases node) (simp_all add: seek_strings_def)

lemma seek_steps_lists:
  "s_responsibilities (seek_title node k st) = s_responsibilities st"
  "s_requirements (seek_title node k st) = s_requirements st"
  "s_responsibilities (seek_company node st) = s_responsibilities st"
  "s_requirements (seek_company node st) = s_requirements st"
  "s_responsibilities (seek_location node st) = s_responsibilities st"
  "s_requirements (seek_location node st) = s_requirements st"
  "s_responsibilities (seek_rich L node k st) = s_responsibilities st"
  "s_requirements (seek_rich L node k st) = s_requirements st"
  by (simp_all add: seek_title_def seek_company_def seek_location_def seek_rich_def Let_def
        split: json.splits)

lemma seek_node_dict_lists:
  "is_dict node \<Longrightarrow>
     s_responsibilities (seek_node L st node) = s_responsibilities st
     \<and> s_requirements (seek_node L st node) = s_requirements st"
  by (simp add: seek_node_def seek_strings_dict seek_steps_lists)

lemma seek_foldl_lists:
  "list_all is_dict nodes \<Longrightarrow>
     s_responsibilities (foldl (seek_node L) st nodes) = s_responsibilities st
     \<and> s_requirements (foldl (seek_node L) st nodes) = s_requirements st"
  by (induction nodes arbitrary: st) (simp_all add: seek_node_dict_lists)

text \<open>The embedded-state tier never returns a responsibility or a requirement.\<close>

lemma seek_lists_always_empty:
  "s_responsibilities (parse_seek_next_data L sp) = []
   \<and> s_requirements (parse_seek_next_data L sp) = []"
  by (simp add: parse_seek_next_data_def seek_foldl_lists walk_json_dicts seek_empty_def
        fromkeys_def Let_def split: option.splits)

lemma validate_str_Inr: "validate_str j = Inr v \<Longrightarrow> of_opt v = j"
  by (cases j) (auto simp: of_opt_def)

text \<open>The part of C5 that holds: a script that \<^verbatim>\<open>json.loads\<close> rejects, also in its
  stripped form, leaves the fields as they were, and the loop goes on to the next
  script.\<close>

lemma ld_script_unparsed:
  "json_loads L raw = None \<Longrightarrow> json_loads L (strip_by (\<lambda>c. c = 59) (strip raw)) = None
     \<Longrightarrow> ld_script L st raw = Inr st"
  by (simp add: ld_script_def)

lemma first_tier_chain:
  "first_tier_wins [a, b, c, d] (jor (jor (jor a b) c) d)"
  "first_tier_wins [a, b, d] (jor (jor a b) d)"
  by (simp_all add: first_tier_wins_def jor_def)

lemma first_tier_truthy:
  "jtruthy (jor (jor a b) c) \<Longrightarrow> first_tier_wins [a, b, c, d] (jor (jor a b) c)"
  "jtruthy (jor a b) \<Longrightarrow> first_tier_wins [a, b, d] (jor a b)"
  by (auto simp: first_tier_wins_def jor_def split: if_splits)

lemma first_tier_no_dom:
  "first_tier_wins [a, b, c, JNull] (jor (jor a b) c)"
  "first_tier_wins [a, b, JNull] (jor a b)"
  by (auto simp: first_tier_wins_def jor_def split: if_splits)

lemma scalar_fields_tiers:
  assumes "scalar_fields sp url sk ld = (title, company, location)"
  shows "first_tier_wins [of_opt (s_title sk), f_title ld, of_opt (extract_title sp),
             of_opt (fst (if is_seek_url url then seek_dom_fields sp else (None, None, None)))] title"
    and "first_tier_wins [of_opt (s_company sk), f_company ld, of_opt (extract_company sp),
             of_opt (fst (snd (if is_seek_url url then seek_dom_fields sp else (None, None, None))))]
           company"
    and "first_tier_wins [of_opt (s_location sk), f_location ld,
             of_opt (snd (snd (if is_seek_url url then seek_dom_fields sp else (None, None, None))))]
           location"
proof -
  define t0 where "t0 = jor (jor (of_opt (s_title sk)) (f_title ld)) (of_opt (extract_title sp))"
  define c0 where "c0 = jor (jor (of_opt (s_company sk)) (f_company ld)) (of_opt (extract_company sp))"
  define l0 where "l0 = jor (of_opt (s_location sk)) (f_location ld)"
  obtain td cd ld' where dom: "seek_dom_fields sp = (td, cd, ld')"
    by (cases "seek_dom_fields sp") auto
  have none: "of_opt None = JNull" by (simp add: of_opt_def)
  consider (dom) "is_seek_url url" "\<not> jtruthy t0 \<or> \<not> jtruthy c0 \<or> \<not> jtruthy l0"
    | (full) "is_seek_url url" "jtruthy t0" "jtruthy c0" "jtruthy l0"
    | (other) "\<not> is_seek_url url"
    by blast
  then have "first_tier_wins [of_opt (s_title sk), f_title ld, of_opt (extract_title sp),
             of_opt (fst (if is_seek_url url then seek_dom_fields sp else (None, None, None)))] title
    \<and> first_tier_wins [of_opt (s_company sk), f_company ld, of_opt (extract_company sp),
             of_opt (fst (snd (if is_seek_url url then seek_dom_fields sp else (None, None, None))))]
           company
    \<and> first_tier_wins [of_opt (s_location sk), f_location ld,
             of_opt (snd (snd (if is_seek_url url then seek_dom_fields sp else (None, None, None))))]
           location"
  proof cases
    case dom
    then have "title = jor t0 (of_opt td)" "company = jor c0 (of_opt cd)"
        "location = jor l0 (of_opt ld')"
      using assms \<open>seek_dom_fields sp = (td, cd, ld')\<close>
      by (simp_all add: scalar_fields_def Let_def t0_def c0_def l0_def)
    then show ?thesis
      using dom(1) \<open>seek_dom_fields sp = (td, cd, ld')\<close>
      by (simp add: t0_def c0_def l0_def first_tier_chain)
  next
    case full
    then have "title = t0" "company = c0" "location = l0"
      using assms by (simp_all add: scalar_fields_def Let_def t0_def c0_def l0_def)
    then show ?thesis
      using full first_tier_truthy(1)[of "of_opt (s_title sk)" "f_title ld" "of_opt (extract_title sp)"]
        first_tier_truthy(1)[of "of_opt (s_company sk)" "f_company ld" "of_opt (extract_company sp)"]
        first_tier_truthy(2)[of "of_opt (s_location sk)" "f_location ld"]
      by (simp add: t0_def c0_def l0_def)
  next
    case other
    then have "title = t0" "company = c0" "location = l0"
      using assms by (simp_all add: scalar_fields_def Let_def t0_def c0_def l0_def)
    then show ?thesis
      using other by (simp add: t0_def c0_def l0_def none first_tier_no_dom)
  qed
  then show "first_tier_wins [of_opt (s_title sk), f_title ld, of_opt (extract_title sp),
             of_opt (fst (if is_seek_url url then seek_dom_fields sp else (None, None, None)))] title"
    and "first_tier_wins [of_opt (s_company sk), f_company ld, of_opt (extract_company sp),
             of_opt (fst (snd (if is_seek_url url then seek_dom_fields sp else (None, None, None))))]
           company"
    and "first_tier_wins [of_opt (s_location sk), f_location ld,
             of_opt (snd (snd (if is_seek_url url then seek_dom_fields sp else (None, None, None))))]
           location"
    by blast+
qed

lemma parse_html_to_jd_Inr:
  assumes "parse_html_to_jd L sp url = Inr jd"
  obtains ld title company location responsibilities requirements desc_ld where
    "extract_from_json_ld L sp = Inr ld"
    "scalar_fields sp url (if is_seek_url url then parse_seek_next_data L sp else seek_empty) ld
       = (title, company, location)"
    "list_fields sp (if is_seek_url url then parse_seek_next_data L sp else seek_empty) ld
       = (responsibilities, requirements, desc_ld)"
    "validate_str title = Inr (jd_title jd)"
    "validate_str company = Inr (jd_company jd)"
    "validate_str location = Inr (jd_location jd)"
    "jd_responsibilities jd = responsibilities"
    "jd_requirements jd = requirements"
proof -
  from assms obtain ld where ld: "extract_from_json_ld L sp = Inr ld"
    by (cases "extract_from_json_ld L sp") (simp_all add: parse_html_to_jd_def)
  define sk where "sk = (if is_seek_url url then parse_seek_next_data L sp else seek_empty)"
  obtain title company location where sc: "scalar_fields sp url sk ld = (title, company, location)"
    by (cases "scalar_fields sp url sk ld") auto
  obtain responsibilities requirements desc_ld where
    lf: "list_fields sp sk ld = (responsibilities, requirements, desc_ld)"
    by (cases "list_fields sp sk ld") auto
  from assms ld sc lf have
    "validate_str title = Inr (jd_title jd) \<and> validate_str company = Inr (jd_company jd)
     \<and> validate_str location = Inr (jd_location jd)
     \<and> jd_responsibilities jd = responsibilities \<and> jd_requirements jd = requirements"
    unfolding parse_html_to_jd_def sk_def[symmetric]
    by (cases "validate_str title"; cases "validate_str company"; cases "validate_str location")
       (auto simp: Let_def)
  then show ?thesis
    using that[OF ld] sc lf unfolding sk_def by blast
qed

text \<open>
  C2, as the spec states it, puts the structured data first and the site-specific DOM
  before the generic fallbacks. On a Seek address the embedded state's title "Senior
  Analyst" wins over the JobPosting title "Data Analyst", and the page heading "Careers at
  Acme" wins over the DOM title "Data Analyst".
\<close>

theorem seek_state_beats_structured_data:
  "parse_html_to_jd
     (table_lib [(''J'', jdict [(''@type'', jstr ''JobPosting''), (''title'', jstr ''Data Analyst'')]),
                 (''S'', jdict [(''title'', jstr ''Senior Analyst'')])])
     (empty_soup\<lparr>ld_scripts := [lit ''J''], next_data := Some (lit ''S'')\<rparr>)
     (Some (lit ''https://www.seek.com.au/job/1''))
   = Inr \<lparr>jd_title = Some (lit ''Senior Analyst''), jd_company = None, jd_location = None,
          jd_responsibilities = [], jd_requirements = [], jd_benefits = [], jd_keywords = []\<rparr>
   \<and> parse_html_to_jd (table_lib [])
     (empty_soup\<lparr>h1_tag := Some (lit ''Careers at Acme''),
        seek_dom_title := Some (lit ''Data Analyst'')\<rparr>)
     (Some (lit ''https://www.seek.com.au/job/1''))
   = Inr \<lparr>jd_title = Some (lit ''Careers at Acme''), jd_company = None, jd_location = None,
          jd_responsibilities = [], jd_requirements = [], jd_benefits = [], jd_keywords = []\<rparr>"
  by code_simp

text \<open>
  C2, amended: whenever the parser returns a record, each scalar field is the first
  non-empty value in this fixed order: the site-specific embedded state (read only for an
  address that contains "seek.com.au"), the structured-data JobPosting blocks, the page
  fallback (for the title the og:title, title or h1 text, for the company the company
  selectors or og:site\_name, none for the location), and last the site-specific DOM
  fields (again only for such an address); the field is empty when none of them has a
  value.
\<close>

theorem scalar_precedence:
  assumes "parse_html_to_jd L sp url = Inr jd"
  shows "\<exists>ld. extract_from_json_ld L sp = Inr ld \<and>
     (let sk = (if is_seek_url url then parse_seek_next_data L sp else seek_empty);
          dom = (if is_seek_url url then seek_dom_fields sp else (None, None, None)) in
      first_tier_wins [of_opt (s_title sk), f_title ld, of_opt (extract_title sp),
                       of_opt (fst dom)] (of_opt (jd_title jd))
      \<and> first_tier_wins [of_opt (s_company sk), f_company ld, of_opt (extract_company sp),
                         of_opt (fst (snd dom))] (of_opt (jd_company jd))
      \<and> first_tier_wins [of_opt (s_location sk), f_location ld, of_opt (snd (snd dom))]
                         (of_opt (jd_location jd)))"
proof -
  from assms obtain ld title company location where
    ld: "extract_from_json_ld L sp = Inr ld" and
    sc: "scalar_fields sp url (if is_seek_url url then parse_seek_next_data L sp else seek_empty) ld
       = (title, company, location)" and
    v: "validate_str title = Inr (jd_title jd)" "validate_str company = Inr (jd_company jd)"
       "validate_str location = Inr (jd_location jd)"
    by (rule parse_html_to_jd_Inr)
  note e = validate_str_Inr[OF v(1)] validate_str_Inr[OF v(2)] validate_str_Inr[OF v(3)]
  show ?thesis
    using ld scalar_fields_tiers[OF sc] unfolding e Let_def by blast
qed

text \<open>
  C2, the scenario of the claim as an instance of the theorem: no address, a JobPosting
  block with the title "Data Analyst" and an unrelated heading "Careers at Acme" give the
  title "Data Analyst".
\<close>

theorem scalar_precedence_scenario_d:
  "parse_html_to_jd
     (table_lib [(''J'', jdict [(''@type'', jstr ''JobPosting''), (''title'', jstr ''Data Analyst'')])])
     (empty_soup\<lparr>ld_scripts := [lit ''J''], h1_tag := Some (lit ''Careers at Acme''),
        headers := [(lit ''Careers at Acme'', NoSibling)]\<rparr>) None
   = Inr \<lparr>jd_title = Some (lit ''Data Analyst''), jd_company = None, jd_location = Some [],
          jd_responsibilities = [], jd_requirements = [], jd_benefits = [], jd_keywords = []\<rparr>
   \<and> first_tier_wins [JNull, jstr ''Data Analyst'', jstr ''Careers at Acme'', JNull]
         (jstr ''Data Analyst'')"
proof -
  let ?L = "table_lib [(''J'', jdict [(''@type'', jstr ''JobPosting''), (''title'', jstr ''Data Analyst'')])]"
  let ?sp = "empty_soup\<lparr>ld_scripts := [lit ''J''], h1_tag := Some (lit ''Careers at Acme''),
        headers := [(lit ''Careers at Acme'', NoSibling)]\<rparr>"
  let ?jd = "\<lparr>jd_title = Some (lit ''Data Analyst''), jd_company = None, jd_location = Some [],
          jd_responsibilities = [], jd_requirements = [], jd_benefits = [], jd_keywords = []\<rparr>"
  have h: "parse_html_to_jd ?L ?sp None = Inr ?jd"
    by code_simp
  have ld: "extract_from_json_ld ?L ?sp = Inr \<lparr>f_title = jstr ''Data Analyst'', f_company = JNull,
      f_location = JStr [], f_responsibilities = [], f_requirements = [], f_descriptions = []\<rparr>"
    by code_simp
  have t: "extract_title ?sp = Some (lit ''Careers at Acme'')"
    by code_simp
  from scalar_precedence[OF h] have
    "first_tier_wins [JNull, jstr ''Data Analyst'', jstr ''Careers at Acme'', JNull]
       (jstr ''Data Analyst'')"
    unfolding ld t
    by (simp add: is_seek_url_def seek_empty_def of_opt_def jstr_def)
  with h show ?thesis by blast
qed

text \<open>
  C5: the parser is not total. A JobPosting block whose \<^verbatim>\<open>addressCountry\<close> is an object,
  the form schema.org gives, makes the join of the address components raise a
  \<^verbatim>\<open>TypeError\<close>, and a block whose title is a list makes the construction of the record
  raise a validation error; nothing catches either.
\<close>

theorem join_of_address_raises:
  "parse_html_to_jd
     (table_lib [(''J'', jdict [(''@type'', jstr ''JobPosting''), (''title'', jstr ''Data Analyst''),
        (''jobLocation'', jdict [(''address'', jdict [(''addressLocality'', jstr ''Sydney''),
            (''addressCountry'', jdict [(''@type'', jstr ''Country''), (''name'', jstr ''AU'')])])])])])
     (empty_soup\<lparr>ld_scripts := [lit ''J'']\<rparr>) None = Inl TypeError
   \<and> parse_html_to_jd
     (table_lib [(''J'', jdict [(''@type'', jstr ''JobPosting''), (''title'', JList [jstr ''Data Analyst''])])])
     (empty_soup\<lparr>ld_scripts := [lit ''J'']\<rparr>) None = Inl ValidationError"
  by code_simp

lemma lists_at_most_80:
  assumes "parse_html_to_jd L sp url = Inr jd"
  shows "length (jd_responsibilities jd) \<le> 80" "length (jd_requirements jd) \<le> 80"
proof -
  from assms obtain ld responsibilities requirements desc_ld where
    lf: "list_fields sp (if is_seek_url url then parse_seek_next_data L sp else seek_empty) ld
       = (responsibilities, requirements, desc_ld)" and
    r: "jd_responsibilities jd = responsibilities" "jd_requirements jd = requirements"
    by (rule parse_html_to_jd_Inr)
  have "\<exists>xs ys. list_fields sp sk ld =
      (take 80 xs, take 80 ys, snd (snd (list_fields sp sk ld)))" for sk
    unfolding list_fields_def Let_def split_beta
    by (intro exI) simp
  from this[of "if is_seek_url url then parse_seek_next_data L sp else seek_empty"] lf
  have "(\<exists>xs. responsibilities = take 80 xs) \<and> (\<exists>ys. requirements = take 80 ys)"
    by auto
  then show "length (jd_responsibilities jd) \<le> 80" "length (jd_requirements jd) \<le> 80"
    unfolding r by auto
qed

text \<open>
  C6: the lists the parser returns are not deduplicated. The parser compares whole strings
  with \<^verbatim>\<open>dict.fromkeys\<close> and strips the items afterwards. A list item that holds "Build
  APIs." and, on the next line after a tab, "Build APIs" is split into two fragments that
  differ by the tab when they are compared, and comes back as the same string twice. The
  two items "Build APIs" and "build apis", equal up to case, both come back. The
  deduplication of the resume segmenter, \<^verbatim>\<open>dedup_list\<close>, which compares the stripped
  lower-cased items, returns one item for either pair.
\<close>

theorem duplicate_items_returned:
  "parse_html_to_jd (table_lib [])
     (empty_soup\<lparr>headers := [(lit ''Responsibilities'',
         ListSibling [lit ''Build APIs.'' @ [10, 9] @ lit ''Build APIs''])],
       ul_items := [[lit ''Build APIs.'' @ [10, 9] @ lit ''Build APIs'']]\<rparr>) None
   = Inr \<lparr>jd_title = None, jd_company = None, jd_location = None,
          jd_responsibilities = [lit ''Build APIs'', lit ''Build APIs''],
          jd_requirements = [], jd_benefits = [], jd_keywords = []\<rparr>
   \<and> parse_html_to_jd (table_lib [])
     (empty_soup\<lparr>headers := [(lit ''Responsibilities'',
         ListSibling [lit ''Build APIs'', lit ''build apis''])],
       ul_items := [[lit ''Build APIs'', lit ''build apis'']]\<rparr>) None
   = Inr \<lparr>jd_title = None, jd_company = None, jd_location = None,
          jd_responsibilities = [lit ''Build APIs'', lit ''build apis''],
          jd_requirements = [], jd_benefits = [], jd_keywords = []\<rparr>
   \<and> lower (lit ''Build APIs'') = lower (lit ''build apis'')
   \<and> dedup_list [lit ''Build APIs'', [9] @ lit ''Build APIs''] = [lit ''Build APIs'']
   \<and> dedup_list [lit ''Build APIs'', lit ''build apis''] = [lit ''Build APIs'']"
  by code_simp

text \<open>
  C8: the branch for lists of strings is never reached, since the walk over the
  application state yields dictionaries only: the unclassified string "Friendly office
  near the station" in a list is not pooled, and the embedded-state tier returns nothing.
  And the branch itself, applied to a list, adds the classified string "Design REST APIs"
  to the description pool as well as to the responsibilities.
\<close>

theorem string_lists_never_reach_the_pool:
  "parse_seek_next_data
     (table_lib [(''S'', jdict [(''props'',
        jdict [(''highlights'', JList [jstr ''Friendly office near the station''])])])])
     (empty_soup\<lparr>next_data := Some (lit ''S'')\<rparr>) = seek_empty
   \<and> seek_strings (JList [jstr ''Design REST APIs'']) seek_empty =
       seek_empty\<lparr>s_responsibilities := [lit ''Design REST APIs''],
                  s_descriptions := [lit ''Design REST APIs'']\<rparr>"
  by code_simp

section \<open>Properties of the matching engine\<close>

lemma round_half_even_cases: "round_half_even q = \<lfloor>q\<rfloor> \<or> round_half_even q = \<lfloor>q\<rfloor> + 1"
  by (simp add: round_half_even_def Let_def)

lemma round_half_even_of_int: "round_half_even (of_int n) = n"
  by (simp add: round_half_even_def Let_def)

lemma round_half_even_mono: "q \<le> q' \<Longrightarrow> round_half_even q \<le> round_half_even q'"
proof -
  assume le: "q \<le> q'"
  then have f: "\<lfloor>q\<rfloor> \<le> \<lfloor>q'\<rfloor>" by (rule floor_mono)
  show ?thesis
  proof (cases "\<lfloor>q\<rfloor> = \<lfloor>q'\<rfloor>")
    case True
    with le show ?thesis
      by (auto simp: round_half_even_def Let_def)
  next
    case False
    with f have "\<lfloor>q\<rfloor> + 1 \<le> \<lfloor>q'\<rfloor>" by simp
    moreover have "round_half_even q \<le> \<lfloor>q\<rfloor> + 1" using round_half_even_cases[of q] by auto
    moreover have "\<lfloor>q'\<rfloor> \<le> round_half_even q'" using round_half_even_cases[of q'] by auto
    ultimately show ?thesis by linarith
  qed
qed

lemma bitlen_rat_bounds:
  assumes "0 < (p::int)"
  shows "(2::rat) powi (bitlen p - 1) \<le> of_int p" "of_int p < (2::rat) powi (bitlen p)"
proof -
  from assms have b1: "1 \<le> bitlen p"
    by (simp add: bitlen_alt_def)
  from bitlen_bounds[OF assms] have "(2::int) ^ nat (bitlen p - 1) \<le> p" "p < 2 ^ nat (bitlen p)"
    by auto
  then have "(of_int ((2::int) ^ nat (bitlen p - 1)) :: rat) \<le> of_int p"
      "(of_int p :: rat) < of_int (2 ^ nat (bitlen p))"
    by (simp_all only: of_int_le_iff of_int_less_iff)
  then show "(2::rat) powi (bitlen p - 1) \<le> of_int p" "of_int p < (2::rat) powi (bitlen p)"
    using b1 by (simp_all add: power_int_def)
qed

lemma binary_exponent_bounds:
  assumes "0 < x"
  shows "2 powi (binary_exponent x) \<le> x \<and> x < 2 powi (binary_exponent x + 1)"
proof -
  obtain p q where pq: "quotient_of x = (p, q)" by (cases "quotient_of x") auto
  have q: "0 < q" using pq quotient_of_denom_pos by blast
  have x: "x = of_int p / of_int q" using pq quotient_of_div by blast
  have p: "0 < p" using assms q x
    by (metis of_int_0_less_iff zero_less_divide_iff not_less_iff_gr_or_eq of_int_pos)
  define a where "a = bitlen p"
  define b where "b = bitlen q"
  note P = bitlen_rat_bounds[OF p, folded a_def]
  note Q = bitlen_rat_bounds[OF q, folded b_def]
  have qpos: "(0::rat) < of_int q" using q by simp
  have ppos: "(0::rat) < of_int p" using p by simp
  have pw: "\<And>k. (0::rat) < 2 powi k" by simp
  have up: "x < 2 powi (a - b + 1)"
  proof -
    have "x < 2 powi a / 2 powi (b - 1)"
      unfolding x using P(2) Q(1) ppos qpos pw
      by (meson frac_less less_imp_le)
    also have "\<dots> = 2 powi (a - b + 1)"
      by (simp add: power_int_diff power_int_add)
    finally show ?thesis .
  qed
  have lo: "2 powi (a - b - 1) \<le> x"
  proof -
    have "(2::rat) powi (a - 1) / 2 powi b \<le> x"
      unfolding x using P(1) Q(2) ppos qpos pw
      by (meson frac_le less_imp_le)
    moreover have "(2::rat) powi (a - 1) / 2 powi b = 2 powi (a - b - 1)"
      by (simp add: power_int_diff)
    ultimately show ?thesis by simp
  qed
  have e: "binary_exponent x = (if (2::rat) powi (a - b) \<le> x then a - b else a - b - 1)"
    by (simp add: binary_exponent_def pq a_def b_def Let_def)
  show ?thesis
  proof (cases "(2::rat) powi (a - b) \<le> x")
    case True
    then show ?thesis using e up by simp
  next
    case False
    then show ?thesis using e lo by simp
  qed
qed

lemma binary_exponent_mono:
  assumes "0 < x" "x \<le> y"
  shows "binary_exponent x \<le> binary_exponent y"
proof (rule ccontr)
  assume "\<not> binary_exponent x \<le> binary_exponent y"
  then have "binary_exponent y + 1 \<le> binary_exponent x" by simp
  then have "(2::rat) powi (binary_exponent y + 1) \<le> 2 powi (binary_exponent x)"
    by (intro power_int_increasing) simp_all
  moreover have "y < 2 powi (binary_exponent y + 1)" using binary_exponent_bounds[of y] assms by simp
  moreover have "2 powi (binary_exponent x) \<le> x" using binary_exponent_bounds[OF assms(1)] by simp
  ultimately show False using assms(2) by linarith
qed

lemma double_pos_bounds:
  assumes "0 < x"
  shows "2 powi (binary_exponent x) \<le> double_pos x" "double_pos x \<le> 2 powi (binary_exponent x + 1)"
proof -
  define u :: rat where "u = 2 powi (binary_exponent x - 52)"
  have u: "0 < u" by (simp add: u_def)
  have lo: "2 powi (binary_exponent x) = of_int (2 ^ 52) * u"
    by (simp add: u_def power_int_diff)
  have hi: "2 powi (binary_exponent x + 1) = of_int (2 ^ 53) * u"
    by (simp add: u_def power_int_diff power_int_add)
  from binary_exponent_bounds[OF assms] have "of_int (2 ^ 52) * u \<le> x" "x \<le> of_int (2 ^ 53) * u"
    unfolding lo hi by simp_all
  then have "of_int (2 ^ 52) \<le> x / u" "x / u \<le> of_int (2 ^ 53)"
    using u by (simp_all add: pos_le_divide_eq pos_divide_le_eq)
  then have "2 ^ 52 \<le> round_half_even (x / u)" "round_half_even (x / u) \<le> 2 ^ 53"
    using round_half_even_mono[of "of_int (2 ^ 52)" "x / u"] round_half_even_mono[of "x / u" "of_int (2 ^ 53)"]
    by (simp_all only: round_half_even_of_int)
  then have "(of_int (2 ^ 52) :: rat) \<le> of_int (round_half_even (x / u))"
      "(of_int (round_half_even (x / u)) :: rat) \<le> of_int (2 ^ 53)"
    by (simp_all only: of_int_le_iff)
  then have "of_int (2 ^ 52) * u \<le> of_int (round_half_even (x / u)) * u"
      "of_int (round_half_even (x / u)) * u \<le> of_int (2 ^ 53) * u"
    using u by (simp_all only: mult_le_cancel_right_pos)
  then show "2 powi (binary_exponent x) \<le> double_pos x" "double_pos x \<le> 2 powi (binary_exponent x + 1)"
    unfolding lo hi double_pos_def Let_def u_def by simp_all
qed

lemma double_pos_mono:
  assumes "0 < x" "x \<le> y"
  shows "double_pos x \<le> double_pos y"
proof (cases "binary_exponent x = binary_exponent y")
  case True
  define u :: rat where "u = 2 powi (binary_exponent y - 52)"
  have u: "0 < u" by (simp add: u_def)
  have "x / u \<le> y / u" using assms u by (simp add: divide_right_mono)
  then have "round_half_even (x / u) \<le> round_half_even (y / u)" by (rule round_half_even_mono)
  then have "(of_int (round_half_even (x / u)) :: rat) * u \<le> of_int (round_half_even (y / u)) * u"
    using u by (simp only: mult_le_cancel_right_pos of_int_le_iff)
  then show ?thesis
    by (simp add: double_pos_def Let_def True u_def)
next
  case False
  with binary_exponent_mono[OF assms] have "binary_exponent x + 1 \<le> binary_exponent y" by simp
  then have "(2::rat) powi (binary_exponent x + 1) \<le> 2 powi (binary_exponent y)"
    by (intro power_int_increasing) simp_all
  moreover have "0 < y" using assms by simp
  ultimately show ?thesis
    using double_pos_bounds(2)[OF assms(1)] double_pos_bounds(1)[of y] by linarith
qed

lemma double_pos_pos: "0 < x \<Longrightarrow> 0 < double_pos x"
  using double_pos_bounds(1)[of x] zero_less_power_int[of "2::rat" "binary_exponent x"] by linarith

lemma double_nonneg: "0 \<le> x \<Longrightarrow> 0 \<le> double x"
  using double_pos_pos[of x] by (auto simp: double_def less_imp_le)

lemma double_mono: "0 \<le> x \<Longrightarrow> x \<le> y \<Longrightarrow> double x \<le> double y"
  using double_pos_mono[of x y] double_pos_pos[of y] by (auto simp: double_def less_imp_le)


lemma double_values:
  "double 0 = 0" "double 1 = 1" "double 100 = 100"
  "double (double (6 / 10)) = double (6 / 10)"
  "double (double (4 / 10)) = double (4 / 10)"
  "double (double (6 / 10) + double (4 / 10)) = 1"
  "round_half_even 0 = 0" "round_half_even 100 = 100"
  by code_simp+

lemma ratio_bounds:
  assumes "h \<le> k"
  shows "0 \<le> double (of_nat h / of_nat (max 1 k))" "double (of_nat h / of_nat (max 1 k)) \<le> 1"
proof -
  have "(0::rat) \<le> of_nat h / of_nat (max 1 k)" by simp
  moreover have "(of_nat h :: rat) / of_nat (max 1 k) \<le> 1"
    using assms by (auto simp: divide_le_eq_1 max_def)
  ultimately show "0 \<le> double (of_nat h / of_nat (max 1 k))"
      "double (of_nat h / of_nat (max 1 k)) \<le> 1"
    using double_nonneg double_mono[of "of_nat h / of_nat (max 1 k)" 1] double_values(2)
    by auto
qed

lemma weighted_sum_mono:
  assumes "0 \<le> a" "a \<le> a'" "0 \<le> b" "b \<le> b'"
  shows "round_half_even (double (100 * double (double (double (6 / 10) * a) + double (double (4 / 10) * b))))
       \<le> round_half_even (double (100 * double (double (double (6 / 10) * a') + double (double (4 / 10) * b'))))"
proof -
  have c6: "0 \<le> double (6 / 10)" and c4: "0 \<le> double (4 / 10)"
    by (simp_all add: double_nonneg)
  have x: "0 \<le> double (6 / 10) * a" "double (6 / 10) * a \<le> double (6 / 10) * a'"
    using assms c6 by (simp_all add: mult_left_mono)
  have y: "0 \<le> double (4 / 10) * b" "double (4 / 10) * b \<le> double (4 / 10) * b'"
    using assms c4 by (simp_all add: mult_left_mono)
  have dx: "0 \<le> double (double (6 / 10) * a)"
      "double (double (6 / 10) * a) \<le> double (double (6 / 10) * a')"
    using x by (simp_all add: double_nonneg double_mono)
  have dy: "0 \<le> double (double (4 / 10) * b)"
      "double (double (4 / 10) * b) \<le> double (double (4 / 10) * b')"
    using y by (simp_all add: double_nonneg double_mono)
  have s: "0 \<le> double (double (6 / 10) * a) + double (double (4 / 10) * b)"
      "double (double (6 / 10) * a) + double (double (4 / 10) * b)
         \<le> double (double (6 / 10) * a') + double (double (4 / 10) * b')"
    using dx dy by simp_all
  have ds: "0 \<le> double (double (double (6 / 10) * a) + double (double (4 / 10) * b))"
      "double (double (double (6 / 10) * a) + double (double (4 / 10) * b))
         \<le> double (double (double (6 / 10) * a') + double (double (4 / 10) * b'))"
    using s by (simp_all add: double_nonneg double_mono)
  have "0 \<le> 100 * double (double (double (6 / 10) * a) + double (double (4 / 10) * b))"
      "100 * double (double (double (6 / 10) * a) + double (double (4 / 10) * b))
         \<le> 100 * double (double (double (6 / 10) * a') + double (double (4 / 10) * b'))"
    using ds by simp_all
  then show ?thesis
    by (intro round_half_even_mono double_mono)
qed

lemma float_score_mono:
  assumes "hk \<le> hk'" "hr \<le> hr'"
  shows "float_score hk k hr r \<le> float_score hk' k hr' r"
proof -
  have a: "(of_nat hk :: rat) / of_nat (max 1 k) \<le> of_nat hk' / of_nat (max 1 k)"
    using assms(1) by (simp add: divide_right_mono)
  have b: "(of_nat hr :: rat) / of_nat (max 1 r) \<le> of_nat hr' / of_nat (max 1 r)"
    using assms(2) by (simp add: divide_right_mono)
  show ?thesis
    unfolding float_score_def
    by (intro weighted_sum_mono double_nonneg double_mono a b) simp_all
qed

lemma float_score_bounds:
  assumes "hk \<le> k" "hr \<le> r"
  shows "0 \<le> float_score hk k hr r" "float_score hk k hr r \<le> 100"
proof -
  note rk = ratio_bounds[OF assms(1)] and rr = ratio_bounds[OF assms(2)]
  have "round_half_even (double (100 * double (double (double (6 / 10) * 0) + double (double (4 / 10) * 0))))
      \<le> float_score hk k hr r"
    unfolding float_score_def using rk rr by (intro weighted_sum_mono) simp_all
  then show "0 \<le> float_score hk k hr r"
    by (simp only: double_values mult_zero_right add_0_left)
  have "float_score hk k hr r
      \<le> round_half_even (double (100 * double (double (double (6 / 10) * 1) + double (double (4 / 10) * 1))))"
    unfolding float_score_def using rk rr by (intro weighted_sum_mono) simp_all
  then show "float_score hk k hr r \<le> 100"
    by (simp only: double_values mult_1_right)
qed

lemma finite_tokens_from_texts: "finite (tokens_from_texts ts)"
  by (simp add: tokens_from_texts_def)

lemma finite_normalize_profile: "finite (normalize_profile input)"
  by (simp add: normalize_profile_def Let_def finite_tokens_from_texts)

lemma finite_normalize_jd: "finite (fst (normalize_jd input))" "finite (snd (normalize_jd input))"
  by (simp_all add: normalize_jd_def Let_def finite_tokens_from_texts)

lemma hit_ratio_card:
  assumes "finite K"
  shows "hit_ratio (sorted_list_of_set (K \<inter> P)) K
           = double (of_nat (card (K \<inter> P)) / of_nat (max 1 (card K)))"
proof (cases "K = {}")
  case True
  then show ?thesis by (simp add: hit_ratio_def double_def)
next
  case False
  then show ?thesis by (simp add: hit_ratio_def)
qed

lemma match_score:
  "m_score (match input) =
     float_score (card (fst (normalize_jd input) \<inter> normalize_profile input))
                (card (fst (normalize_jd input)))
                (card (snd (normalize_jd input) \<inter> normalize_profile input))
                (card (snd (normalize_jd input)))"
  by (simp add: match_def Let_def split_beta float_score_def hit_ratio_card finite_normalize_jd)

lemma rmatch_star_chr:
  "\<exists>p' rest. rmatch (Star (Chr P)) (p, cs, g) = (p', dropWhile P cs, g) # rest"
proof (induction cs arbitrary: p)
  case Nil
  show ?case by simp
next
  case (Cons c cs)
  show ?case
  proof (cases "P c")
    case True
    from Cons[of "Some c"] obtain p' rest where
      "rmatch (Star (Chr P)) (Some c, cs, g) = (p', dropWhile P cs, g) # rest" by blast
    then show ?thesis using True by simp
  next
    case False
    then show ?thesis by simp
  qed
qed

lemma rmatch_plus_chr:
  "rmatch (Plus (Chr P)) (p, c # cs, g) =
     (if P c then rmatch (Star (Chr P)) (Some c, cs, g) else [])"
  by (simp add: Plus_def)

lemma rmatch_plus_chr_nil: "rmatch (Plus (Chr P)) (p, [], g) = []"
  by (simp add: Plus_def)

lemma take_run: "take (Suc (length cs) - length (dropWhile P cs)) (c # cs) = c # takeWhile P cs"
proof -
  have "length cs - length (dropWhile P cs) = length (takeWhile P cs)"
    by (metis add_diff_cancel_right' length_append takeWhile_dropWhile_id)
  moreover have "length (dropWhile P cs) \<le> length cs" by (rule length_dropWhile_le)
  ultimately have "Suc (length cs) - length (dropWhile P cs) = Suc (length (takeWhile P cs))"
    by simp
  moreover have "take (length (takeWhile P cs)) cs = takeWhile P cs"
    by (metis append_eq_conv_conj takeWhile_dropWhile_id)
  ultimately show ?thesis by simp
qed

lemma re_scan_word_runs:
  "map snd (fst (re_scan (Plus (Chr P)) p cs pre)) = word_runs P cs"
proof (induction cs arbitrary: p pre rule: length_induct)
  case (1 cs)
  show ?case
  proof (cases cs)
    case Nil
    then show ?thesis by (subst re_scan.simps) (simp add: rmatch_plus_chr_nil)
  next
    case (Cons c cs')
    show ?thesis
    proof (cases "P c")
      case True
      obtain p' rest where
        m: "rmatch (Star (Chr P)) (Some c, cs', []) = (p', dropWhile P cs', []) # rest"
        using rmatch_star_chr by blast
      have l: "length (dropWhile P cs') < length cs"
        using length_dropWhile_le[of P cs'] Cons by simp
      have ih: "map snd (fst (re_scan (Plus (Chr P)) p' (dropWhile P cs') []))
          = word_runs P (dropWhile P cs')"
        using 1 l by blast
      show ?thesis
        using True m l ih Cons
        by (subst re_scan.simps) (simp add: rmatch_plus_chr split_beta take_run)
    next
      case False
      have ih: "map snd (fst (re_scan (Plus (Chr P)) (Some c) cs' (c # pre))) = word_runs P cs'"
        using 1 Cons by simp
      show ?thesis
        using False ih Cons
        by (subst re_scan.simps) (simp add: rmatch_plus_chr)
    qed
  qed
qed

lemma re_findall_word_runs: "re_findall (Plus (Chr P)) s = word_runs P s"
  by (simp only: re_findall_def re_scan_word_runs)

lemma word_char_token_char: "word_char = token_char"
  by (auto simp: fun_eq_iff word_char_def token_char_def is_upper_def is_lower_def lit_def)

lemma tokens_from_texts_long_words: "tokens_from_texts ts = long_words ts"
  by (simp add: tokens_from_texts_def long_words_def WORD_RE_def re_findall_word_runs
        word_char_token_char)

lemma normalize_profile_tokens: "normalize_profile input = profile_tokens (mi_profile input)"
  by (auto simp: normalize_profile_def profile_tokens_def Let_def tokens_from_texts_long_words
        long_words_def)

lemma normalize_jd_sets:
  "normalize_jd input = (keyword_set (mi_jd input), requirement_words (mi_jd input))"
  by (simp add: normalize_jd_def keyword_set_def requirement_words_def Let_def
        tokens_from_texts_long_words)

lemma match_reasons_unfold:
  "m_reasons (match input) =
     (let hk = filter_tokens (sorted_list_of_set
                 (keyword_set (mi_jd input) \<inter> profile_tokens (mi_profile input)));
          hr = filter_tokens (sorted_list_of_set
                 (requirement_words (mi_jd input) \<inter> profile_tokens (mi_profile input)))
      in (if hk \<noteq> [] then [label_skill_match @ format_tokens hk 6] else [])
         @ map (\<lambda>item. label_related_experience @ item) (collect_bullet_evidence (hk @ hr) input 3)
         @ location_reason input)"
  by (simp add: match_def Let_def split_beta normalize_jd_sets normalize_profile_tokens)

text \<open>
  C1, as the spec states it: the score would be the formula evaluated as written, on the
  set \<open>K\<close> of the lower-cased keywords and the set \<open>R\<close> of the word tokens of requirements and
  responsibilities. For the requirements "Go" and "C#" against the skills "go" and "c#"
  that is 40, and the engine, which keeps no token of one or two characters, returns 0.
  For the keywords "" and "python" against the skill "python" it is 30, and the engine,
  which drops the empty keyword, returns 60. For five of eight keywords and one of two
  requirement tokens the formula is 57.5, which rounds to 58; the engine computes it in
  floating point, gets a value below 57.5, and returns 57.
\<close>

theorem stated_formula_differs:
  "m_score (match short_token_input) = 0 \<and> stated_score short_token_input = 40
   \<and> m_score (match empty_keyword_input) = 60 \<and> stated_score empty_keyword_input = 30
   \<and> m_score (match half_point_input) = 57 \<and> stated_score half_point_input = 58"
proof -
  have k: "float_score
      (card (keyword_set (mi_jd empty_keyword_input) \<inter> profile_tokens (mi_profile empty_keyword_input)))
      (card (keyword_set (mi_jd empty_keyword_input)))
      (card (requirement_words (mi_jd empty_keyword_input) \<inter> profile_tokens (mi_profile empty_keyword_input)))
      (card (requirement_words (mi_jd empty_keyword_input))) = 60"
    by code_simp
  have k': "stated_score empty_keyword_input = 30"
    by code_simp
  have km: "m_score (match empty_keyword_input) = 60"
    by (simp only: match_score normalize_jd_sets normalize_profile_tokens fst_conv snd_conv k)
  have a: "float_score
      (card (keyword_set (mi_jd short_token_input) \<inter> profile_tokens (mi_profile short_token_input)))
      (card (keyword_set (mi_jd short_token_input)))
      (card (requirement_words (mi_jd short_token_input) \<inter> profile_tokens (mi_profile short_token_input)))
      (card (requirement_words (mi_jd short_token_input))) = 0"
    by code_simp
  have b: "float_score
      (card (keyword_set (mi_jd half_point_input) \<inter> profile_tokens (mi_profile half_point_input)))
      (card (keyword_set (mi_jd half_point_input)))
      (card (requirement_words (mi_jd half_point_input) \<inter> profile_tokens (mi_profile half_point_input)))
      (card (requirement_words (mi_jd half_point_input))) = 57"
    by code_simp
  have c: "stated_score short_token_input = 40"
    by code_simp
  have d: "stated_score half_point_input = 58"
    by code_simp
  have "m_score (match short_token_input) = 0"
    by (simp only: match_score normalize_jd_sets normalize_profile_tokens fst_conv snd_conv a)
  moreover have "m_score (match half_point_input) = 57"
    by (simp only: match_score normalize_jd_sets normalize_profile_tokens fst_conv snd_conv b)
  ultimately show ?thesis
    using c d km k' by simp
qed

text \<open>
  C1, amended. For every profile and job description the score is
  round(100 \<times> (0.6 \<times> |HK|/max(1,|K|) + 0.4 \<times> |HR|/max(1,|R|))) evaluated in double-precision
  arithmetic, every operation rounding, where \<open>K\<close> is the set of the lower-cased non-empty
  keywords, \<open>R\<close> the set of the words of more than two characters of the lower-cased
  requirements and responsibilities (a word being a maximal run of letters, digits, \<^verbatim>\<open>+\<close>,
  \<^verbatim>\<open>#\<close> and \<^verbatim>\<open>.\<close>), \<open>P\<close> the token set of the profile (lower-cased skills, lower-cased
  skills, topics and tools of the courses, and such words of the bullets), and
  \<open>HK = K \<inter> P\<close>, \<open>HR = R \<inter> P\<close>. None of these sets drops a stop word or a token with a
  digit, so the filters of the display cannot change the score. The score is an integer
  between 0 and 100.
\<close>

theorem score_formula_and_bounds:
  "m_score (match input) =
     float_score (card (keyword_set (mi_jd input) \<inter> profile_tokens (mi_profile input)))
                 (card (keyword_set (mi_jd input)))
                 (card (requirement_words (mi_jd input) \<inter> profile_tokens (mi_profile input)))
                 (card (requirement_words (mi_jd input)))
   \<and> 0 \<le> m_score (match input) \<and> m_score (match input) \<le> 100"
proof -
  have "card (fst (normalize_jd input) \<inter> normalize_profile input) \<le> card (fst (normalize_jd input))"
      "card (snd (normalize_jd input) \<inter> normalize_profile input) \<le> card (snd (normalize_jd input))"
    by (simp_all add: card_mono finite_normalize_jd)
  from float_score_bounds[OF this] show ?thesis
    by (simp add: match_score normalize_jd_sets normalize_profile_tokens)
qed

text \<open>C1 where every hit is a stop word or holds a digit: the keyword "experience" and the
  requirement tokens "support" and "2024" are all in the profile, none of them is shown in
  the reasons, and the score is 100.\<close>

theorem score_counts_filtered_hits:
  "m_score (match filtered_hits_input) = 100 \<and> m_reasons (match filtered_hits_input) = []"
proof -
  have a: "float_score
      (card (keyword_set (mi_jd filtered_hits_input) \<inter> profile_tokens (mi_profile filtered_hits_input)))
      (card (keyword_set (mi_jd filtered_hits_input)))
      (card (requirement_words (mi_jd filtered_hits_input) \<inter> profile_tokens (mi_profile filtered_hits_input)))
      (card (requirement_words (mi_jd filtered_hits_input))) = 100"
    by code_simp
  have hk: "filter_tokens (sorted_list_of_set
      (keyword_set (mi_jd filtered_hits_input) \<inter> profile_tokens (mi_profile filtered_hits_input))) = []"
    by code_simp
  have hr: "filter_tokens (sorted_list_of_set
      (requirement_words (mi_jd filtered_hits_input) \<inter> profile_tokens (mi_profile filtered_hits_input))) = []"
    by code_simp
  have ev: "collect_bullet_evidence [] filtered_hits_input 3 = []"
    by code_simp
  have loc: "location_reason filtered_hits_input = []"
    by code_simp
  have r: "m_reasons (match filtered_hits_input) = []"
    by (simp add: match_reasons_unfold hk hr ev loc)
  from score_formula_and_bounds[of filtered_hits_input] a r show ?thesis
    by simp
qed

lemma normalize_add_skill:
  "normalize_profile (input\<lparr>mi_profile := (mi_profile input)\<lparr>p_skills := p_skills (mi_profile input) @ [k]\<rparr>\<rparr>)
     = insert (lower k) (normalize_profile input)"
  "normalize_jd (input\<lparr>mi_profile := (mi_profile input)\<lparr>p_skills := p_skills (mi_profile input) @ [k]\<rparr>\<rparr>)
     = normalize_jd input"
  by (simp_all add: normalize_profile_def normalize_jd_def Let_def Un_assoc)

text \<open>
  C4. Appending a keyword of the job description to the skills of the profile gives a
  score that is at least the score of the original profile.
\<close>

theorem score_monotone_in_skills:
  assumes "k \<in> set (jd_keywords (mi_jd input))"
  shows "m_score (match input)
     \<le> m_score (match (input\<lparr>mi_profile :=
           (mi_profile input)\<lparr>p_skills := p_skills (mi_profile input) @ [k]\<rparr>\<rparr>))"
proof -
  let ?P = "normalize_profile input"
  let ?K = "fst (normalize_jd input)"
  let ?R = "snd (normalize_jd input)"
  have "card (?K \<inter> ?P) \<le> card (?K \<inter> insert (lower k) ?P)"
      "card (?R \<inter> ?P) \<le> card (?R \<inter> insert (lower k) ?P)"
    by (auto intro!: card_mono simp: finite_normalize_jd)
  then show ?thesis
    unfolding match_score normalize_add_skill by (rule float_score_mono)
qed

text \<open>C4 at the example: the keyword "sql" is appended to the skills.\<close>

theorem score_monotone_witness:
  "lit ''sql'' \<in> set (jd_keywords example_jd)
   \<and> m_score (match \<lparr>mi_profile = example_profile, mi_jd = example_jd\<rparr>)
     \<le> m_score (match \<lparr>mi_profile = example_profile\<lparr>p_skills := [lit ''Python'', lit ''sql'']\<rparr>,
                         mi_jd = example_jd\<rparr>)"
proof -
  have h: "lit ''sql'' \<in> set (jd_keywords (mi_jd \<lparr>mi_profile = example_profile, mi_jd = example_jd\<rparr>))"
    by (simp add: example_jd_def)
  have s: "p_skills example_profile @ [lit ''sql''] = [lit ''Python'', lit ''sql'']"
    by (simp add: example_profile_def)
  from score_monotone_in_skills[OF h] h show ?thesis
    by (simp add: s)
qed

lemma with_locations_normalize:
  "normalize_profile (with_locations pl jl input) = normalize_profile input"
  "normalize_jd (with_locations pl jl input) = normalize_jd input"
  "collect_bullet_evidence ts (with_locations pl jl input) n = collect_bullet_evidence ts input n"
  by (simp_all add: with_locations_def normalize_profile_def normalize_jd_def
        collect_bullet_evidence_def Let_def)

lemma location_reason_none: "location_reason (with_locations None None input) = []"
  by (simp add: location_reason_def with_locations_def)

lemma match_reasons_split:
  "m_reasons (match input) = m_reasons (match (with_locations None None input)) @ location_reason input"
  by (simp add: match_def Let_def split_beta with_locations_normalize location_reason_none)

text \<open>
  C10. When both locations are non-empty and the lower-cased location of the job
  description occurs in the lower-cased location of the profile, the reasons are the
  reasons of the same input without locations followed by the location line; and the score
  is the same whatever the two location fields are.
\<close>

theorem location_reason_and_score:
  "(jd_location (mi_jd input) = Some jl \<and> jl \<noteq> [] \<and> p_location (mi_profile input) = Some pl
      \<and> pl \<noteq> [] \<and> contains (lower pl) (lower jl)
     \<longrightarrow> m_reasons (match input)
          = m_reasons (match (with_locations None None input)) @ [label_location_match @ jl])
   \<and> m_score (match (with_locations pl' jl' input)) = m_score (match input)"
proof -
  have "location_reason input = [label_location_match @ jl]"
    if "jd_location (mi_jd input) = Some jl" "jl \<noteq> []" "p_location (mi_profile input) = Some pl"
       "pl \<noteq> []" "contains (lower pl) (lower jl)"
    using that by (simp add: location_reason_def)
  then have "jd_location (mi_jd input) = Some jl \<and> jl \<noteq> [] \<and> p_location (mi_profile input) = Some pl
      \<and> pl \<noteq> [] \<and> contains (lower pl) (lower jl)
     \<longrightarrow> m_reasons (match input)
          = m_reasons (match (with_locations None None input)) @ [label_location_match @ jl]"
    using match_reasons_split[of input] by metis
  moreover have "m_score (match (with_locations pl' jl' input)) = m_score (match input)"
    by (simp only: match_score with_locations_normalize)
  ultimately show ?thesis by blast
qed

text \<open>C10 at the example: "Sydney" occurs in "Sydney, NSW".\<close>

theorem location_reason_witness:
  "contains (lower (lit ''Sydney, NSW'')) (lower (lit ''Sydney''))
   \<and> m_reasons (match \<lparr>mi_profile = example_profile, mi_jd = example_jd\<rparr>)
      = m_reasons (match (with_locations None None \<lparr>mi_profile = example_profile, mi_jd = example_jd\<rparr>))
        @ [label_location_match @ lit ''Sydney'']"
proof -
  have c: "contains (lower (lit ''Sydney, NSW'')) (lower (lit ''Sydney''))"
    by code_simp
  have n: "lit ''Sydney'' \<noteq> []" "lit ''Sydney, NSW'' \<noteq> []"
    by (simp_all add: lit_def)
  have l: "jd_location (mi_jd \<lparr>mi_profile = example_profile, mi_jd = example_jd\<rparr>)
        = Some (lit ''Sydney'')"
      "p_location (mi_profile \<lparr>mi_profile = example_profile, mi_jd = example_jd\<rparr>)
        = Some (lit ''Sydney, NSW'')"
    by (simp_all add: example_jd_def example_profile_def)
  from location_reason_and_score[of "\<lparr>mi_profile = example_profile, mi_jd = example_jd\<rparr>"
      "lit ''Sydney''" "lit ''Sydney, NSW''"] c n l
  show ?thesis
    by blast
qed

end
